theory Spec2Isabelle
  imports Main
begin

section \<open>Data model of the ask service\<close>

text \<open>
  The request lifecycle of \<^verbatim>\<open>AskService\<close> (file \<^verbatim>\<open>src/web/v1/services/ask.py\<close>)
  is embedded as state-passing functions. The job store and the log of what the
  service did (pipelines it invoked, statuses it stored) form the state; the external
  pipelines are an environment that says, for one run, what every pipeline call
  returns or raises and whether a stop request is served while the call is awaited.
\<close>

subsection \<open>Python values\<close>

text \<open>
  Exceptions are values. \<open>PipelineError\<close> stands for whatever an external pipeline
  raises; \<open>ValidationError\<close> is the error of the Pydantic models. \<open>str_exc\<close> is
  Python's \<^verbatim>\<open>str(e)\<close>: a \<^verbatim>\<open>KeyError\<close> prints its key in quotes.
\<close>

datatype exc =
    KeyError string
  | TypeError string
  | IndexError string
  | ValueError string
  | ValidationError string
  | PipelineError string

fun str_exc :: "exc \<Rightarrow> string" where
  "str_exc (KeyError k) = [CHR 0x27] @ k @ [CHR 0x27]"
| "str_exc (TypeError m) = m"
| "str_exc (IndexError m) = m"
| "str_exc (ValueError m) = m"
| "str_exc (ValidationError m) = m"
| "str_exc (PipelineError m) = m"

definition not_subscriptable :: string where
  "not_subscriptable = [CHR 0x27] @ ''NoneType'' @ [CHR 0x27] @ '' object is not subscriptable''"

text \<open>
  A result dictionary with string values (\<^verbatim>\<open>Dict[str, str]\<close> in the source) is an
  association list; \<^verbatim>\<open>d[k]\<close> raises on a missing key, \<^verbatim>\<open>d.get(k)\<close> gives
  \<open>None\<close>, and a dictionary is truthy when it is not empty. An entry of an outer
  dictionary is absent, \<^verbatim>\<open>None\<close>, or a value.
\<close>

type_synonym pydict = "(string \<times> string) list"

definition subscript :: "pydict \<Rightarrow> string \<Rightarrow> exc + string" where
  "subscript d k = (case map_of d k of None \<Rightarrow> Inl (KeyError k) | Some v \<Rightarrow> Inr v)"

definition get :: "pydict \<Rightarrow> string \<Rightarrow> string option" where
  "get d k = map_of d k"

definition get_default :: "pydict \<Rightarrow> string \<Rightarrow> string option \<Rightarrow> string option" where
  "get_default d k dflt = (case map_of d k of None \<Rightarrow> dflt | Some v \<Rightarrow> Some v)"

datatype 'a entry = Absent | Null | Value 'a

fun truthy_dict :: "pydict entry \<Rightarrow> pydict option" where
  "truthy_dict (Value d) = (if d = [] then None else Some d)"
| "truthy_dict _ = None"

text \<open>The planning text is a string or a dictionary (the service tests both).\<close>

datatype reasoning = Reasoning_str string | Reasoning_dict pydict

subsection \<open>Request and response models\<close>

datatype ask_status =
  Understanding | Searching | Planning | Generating | Correcting | Finished | Failed | Stopped

datatype ask_type = GENERAL | TEXT_TO_SQL

datatype general_type = MISLEADING_QUERY | DATA_ASSISTANCE | USER_GUIDE

datatype result_type = Llm | View

datatype error_code = NO_RELEVANT_DATA | NO_RELEVANT_SQL | OTHERS

record ask_history =
  history_sql :: string
  history_question :: string

text \<open>
  Of an \<^verbatim>\<open>AskRequest\<close> the fields that decide what the service does; the fields
  only handed on to the pipelines (project id, configurations, dry-plan flags, custom
  instruction) are left out. \<^verbatim>\<open>histories\<close> is \<^verbatim>\<open>Optional[List[AskHistory]]\<close>.
\<close>

record ask_request =
  query_id :: string
  query :: string
  histories :: "ask_history list option"
  ignore_sql_generation_reasoning :: bool
  request_from :: string

record ask_result =
  sql :: string
  result_type :: result_type
  viewId :: "string option"

record ask_error =
  code :: error_code
  message :: string

text \<open>
  \<^verbatim>\<open>AskResultResponse\<close>. The keyword arguments handed to the constructor carry the
  planning text as it comes (\<open>'r = reasoning\<close>); the stored, validated model has a
  string there (\<open>'r = string\<close>).
\<close>

record 'r ask_result_response =
  status :: ask_status
  rephrased_question :: "string option"
  intent_reasoning :: "string option"
  sql_generation_reasoning :: "'r option"
  ask_type :: "ask_type option"
  retrieved_tables :: "string list option"
  response :: "ask_result list option"
  invalid_sql :: "string option"
  error :: "ask_error option"
  trace_id :: "string option"
  is_followup :: bool
  general_type :: "general_type option"

definition AskResultResponse :: "ask_status \<Rightarrow> 'r ask_result_response" where
  "AskResultResponse s =
     \<lparr>status = s, rephrased_question = None, intent_reasoning = None,
      sql_generation_reasoning = None, ask_type = None, retrieved_tables = None,
      response = None, invalid_sql = None, error = None, trace_id = None,
      is_followup = False, general_type = None\<rparr>"

text \<open>
  Validation of the constructor's arguments: with the other fields typed as the model
  declares them, the one argument that can be of the wrong type is the planning text,
  a dictionary where \<^verbatim>\<open>Optional[str]\<close> is declared.
\<close>

definition validate :: "string \<Rightarrow> reasoning ask_result_response \<Rightarrow> exc + string ask_result_response" where
  "validate msg kw =
     (case sql_generation_reasoning kw of
        Some (Reasoning_dict d) \<Rightarrow> Inl (ValidationError msg)
      | r \<Rightarrow>
          Inr \<lparr>status = status kw, rephrased_question = rephrased_question kw,
               intent_reasoning = intent_reasoning kw,
               sql_generation_reasoning = (case r of Some (Reasoning_str s) \<Rightarrow> Some s | _ \<Rightarrow> None),
               ask_type = ask_type kw, retrieved_tables = retrieved_tables kw,
               response = response kw, invalid_sql = invalid_sql kw, error = error kw,
               trace_id = trace_id kw, is_followup = is_followup kw,
               general_type = general_type kw\<rparr>)"

record metadata =
  metadata_type :: string
  error_type :: "string option"
  error_message :: "string option"
  metadata_request_from :: "string option"

text \<open>The dictionary a run returns; \<open>ask_result = None\<close> is the empty \<^verbatim>\<open>{}\<close>.\<close>

record ask_output =
  ask_result :: "ask_result list option"
  metadata :: metadata

subsection \<open>The service, its state and its environment\<close>

record ask_service =
  allow_intent_classification :: bool
  allow_sql_generation_reasoning :: bool
  allow_sql_functions_retrieval :: bool
  allow_sql_diagnosis :: bool
  enable_column_pruning :: bool
  max_sql_correction_retries :: int
  max_histories :: int

definition default_service :: ask_service where
  "default_service =
     \<lparr>allow_intent_classification = True, allow_sql_generation_reasoning = True,
      allow_sql_functions_retrieval = True, allow_sql_diagnosis = True,
      enable_column_pruning = False, max_sql_correction_retries = 3, max_histories = 5\<rparr>"

datatype pipeline =
    Historical_question | Sql_pairs_retrieval | Instructions_retrieval
  | Intent_classification | Misleading_assistance | Data_assistance | User_guide_assistance
  | Db_schema_retrieval | Followup_sql_generation_reasoning | Sql_generation_reasoning
  | Sql_functions_retrieval | Followup_sql_generation | Sql_generation | Sql_correction

text \<open>
  The log: \<open>Run p h\<close> is a call of \<^verbatim>\<open>self._pipelines[p].run(...)\<close>, with the
  \<^verbatim>\<open>histories\<close> argument when the call passes one; \<open>Write s\<close> is a job record with
  status \<open>s\<close> stored by \<^verbatim>\<open>_update_status\<close>.
\<close>

datatype event = Run pipeline "ask_history list option" | Write ask_status

record service_state =
  ask_results :: "string \<rightharpoonup> string ask_result_response"
  trace :: "event list"

record historical_document =
  statement :: "string option"
  document_viewId :: "string option"

record schema_document =
  table_name :: string
  table_ddl :: string

record retrieval_output =
  retrieval_results :: "schema_document list"
  has_calculated_field :: bool
  has_metric :: bool
  has_json_field :: bool

record intent_output =
  intent :: "string option"
  intent_rephrased_question :: "string option"
  reasoning :: "string option"
  db_schemas :: "string list option"

record generation_post_process =
  valid_generation_result :: "pydict entry"
  invalid_generation_result :: "pydict entry"

text \<open>
  What the collaborators do in one run. Each pipeline output is given after the
  \<^verbatim>\<open>.get(key, default)\<close> chains of the service: a missing \<^verbatim>\<open>documents\<close> list is
  \<open>[]\<close>, a missing \<^verbatim>\<open>post_process\<close> of a reasoning pipeline is the empty dictionary.
  A generation result without the key \<^verbatim>\<open>post_process\<close> is \<open>None\<close>. The correction
  pipeline is called several times; its outputs are indexed by the number of earlier
  calls. \<open>stop_during p i\<close> says that \<^verbatim>\<open>stop_ask\<close> runs for this query while call
  \<open>i\<close> of pipeline \<open>p\<close> is awaited (the event loop switches tasks only there).
\<close>

record env =
  historical_question_run :: "exc + historical_document list"
  sql_pairs_retrieval_run :: "exc + pydict list"
  instructions_retrieval_run :: "exc + pydict list"
  intent_classification_run :: "exc + intent_output"
  db_schema_retrieval_run :: "exc + retrieval_output"
  sql_generation_reasoning_run :: "exc + reasoning"
  followup_sql_generation_reasoning_run :: "exc + reasoning"
  sql_functions_retrieval_run :: "exc + string list"
  sql_generation_run :: "exc + generation_post_process option"
  followup_sql_generation_run :: "exc + generation_post_process option"
  sql_correction_run :: "nat \<Rightarrow> exc + generation_post_process option"
  stop_during :: "pipeline \<Rightarrow> nat \<Rightarrow> bool"
  json_dumps :: "pydict \<Rightarrow> string"
  validation_message :: string

section \<open>Helper methods\<close>

definition is_stopped :: "string \<Rightarrow> (string \<rightharpoonup> string ask_result_response) \<Rightarrow> bool" where
  "is_stopped qid container =
     (case container qid of None \<Rightarrow> False | Some result \<Rightarrow> status result = Stopped)"

text \<open>
  \<^verbatim>\<open>_update_status\<close> stores the validated model; when the constructor raises, the
  error is logged and nothing is stored.
\<close>

definition update_status :: "env \<Rightarrow> string \<Rightarrow> reasoning ask_result_response \<Rightarrow> service_state \<Rightarrow> service_state" where
  "update_status e qid kw st =
     (case validate (validation_message e) kw of
        Inl _ \<Rightarrow> st
      | Inr r \<Rightarrow> st\<lparr>ask_results := (ask_results st)(qid \<mapsto> r), trace := trace st @ [Write (status r)]\<rparr>)"

definition invoke :: "pipeline \<Rightarrow> ask_history list option \<Rightarrow> service_state \<Rightarrow> service_state" where
  "invoke p h st = st\<lparr>trace := trace st @ [Run p h]\<rparr>"

definition stop_ask :: "string \<Rightarrow> service_state \<Rightarrow> service_state" where
  "stop_ask qid st = st\<lparr>ask_results := (ask_results st)(qid \<mapsto> AskResultResponse Stopped)\<rparr>"

definition await :: "env \<Rightarrow> pipeline \<Rightarrow> nat \<Rightarrow> string \<Rightarrow> service_state \<Rightarrow> service_state" where
  "await e p i qid st = (if stop_during e p i then stop_ask qid st else st)"

definition not_found :: "string \<Rightarrow> string ask_result_response" where
  "not_found qid =
     (AskResultResponse Failed)
       \<lparr>ask_type := Some TEXT_TO_SQL,
        error := Some \<lparr>code = OTHERS, message = qid @ '' is not found''\<rparr>\<rparr>"

definition get_ask_result :: "(string \<rightharpoonup> string ask_result_response) \<Rightarrow> string \<Rightarrow> string ask_result_response" where
  "get_ask_result container qid =
     (case container qid of None \<Rightarrow> not_found qid | Some result \<Rightarrow> result)"

section \<open>Retrieval and classification steps\<close>

record ask_context =
  ctx_query_id :: string
  user_query :: string
  ctx_histories :: "ask_history list"
  ctx_trace_id :: "string option"
  ctx_rephrased_question :: "string option"
  ctx_intent_reasoning :: "string option"
  ctx_sql_generation_reasoning :: "reasoning option"
  table_names :: "string list option"
  table_ddls :: "string list option"
  sql_samples :: "pydict list option"
  instructions :: "pydict list option"

text \<open>Python's \<^verbatim>\<open>xs[:n]\<close>: a negative bound counts from the end.\<close>

definition slice_to :: "'a list \<Rightarrow> int \<Rightarrow> 'a list" where
  "slice_to xs n = (if 0 \<le> n then take (nat n) xs else take (nat (int (length xs) + n)) xs)"

text \<open>
  The context is built before the \<^verbatim>\<open>try\<close> of \<^verbatim>\<open>ask\<close>; slicing
  \<^verbatim>\<open>ask_request.histories\<close> raises when it is \<^verbatim>\<open>None\<close>.
\<close>

definition AskContext :: "ask_service \<Rightarrow> ask_request \<Rightarrow> string option \<Rightarrow> exc + ask_context" where
  "AskContext svc req tid =
     (case histories req of
        None \<Rightarrow> Inl (TypeError not_subscriptable)
      | Some hs \<Rightarrow>
          Inr \<lparr>ctx_query_id = query_id req, user_query = query req,
               ctx_histories = rev (slice_to hs (max_histories svc)),
               ctx_trace_id = tid, ctx_rephrased_question = None,
               ctx_intent_reasoning = None, ctx_sql_generation_reasoning = None,
               table_names = None, table_ddls = None, sql_samples = None,
               instructions = None\<rparr>)"

text \<open>A list comprehension whose element expression may raise.\<close>

fun comprehension :: "('a \<Rightarrow> exc + 'b) \<Rightarrow> 'a list \<Rightarrow> exc + 'b list" where
  "comprehension f [] = Inr []"
| "comprehension f (x # xs) =
     (case f x of
        Inl ex \<Rightarrow> Inl ex
      | Inr y \<Rightarrow> (case comprehension f xs of Inl ex \<Rightarrow> Inl ex | Inr ys \<Rightarrow> Inr (y # ys)))"

definition truthy_str :: "string option \<Rightarrow> bool" where
  "truthy_str s = (case s of None \<Rightarrow> False | Some v \<Rightarrow> v \<noteq> [])"

text \<open>
  \<^verbatim>\<open>AskResult(sql=result.get("statement"), type="view" if result.get("viewId") else "llm",
  viewId=result.get("viewId"))\<close>; \<^verbatim>\<open>sql\<close> is a required string.
\<close>

definition cached_ask_result :: "env \<Rightarrow> historical_document \<Rightarrow> exc + ask_result" where
  "cached_ask_result e d =
     (case statement d of
        None \<Rightarrow> Inl (ValidationError (validation_message e))
      | Some s \<Rightarrow>
          Inr \<lparr>sql = s,
               result_type = (if truthy_str (document_viewId d) then View else Llm),
               viewId = document_viewId d\<rparr>)"

definition retrieve_sql_samples_and_instructions ::
  "env \<Rightarrow> string \<Rightarrow> service_state \<Rightarrow> (pydict list \<times> pydict list) \<times> service_state" where
  "retrieve_sql_samples_and_instructions e qid st =
     (let st1 = await e Sql_pairs_retrieval 0 qid
                  (invoke Instructions_retrieval None (invoke Sql_pairs_retrieval None st))
      in case sql_pairs_retrieval_run e of
           Inl ex \<Rightarrow> (([], []), st1)
         | Inr samples \<Rightarrow>
             (case instructions_retrieval_run e of
                Inl ex \<Rightarrow> (([], []), st1)
              | Inr instrs \<Rightarrow> ((samples, instrs), st1)))"

text \<open>
  \<^verbatim>\<open>_check_historical_question\<close>. The query id is not a parameter of the source
  method; the model needs it to say whose record a stop request served meanwhile
  replaces.
\<close>

definition check_historical_question ::
  "env \<Rightarrow> string \<Rightarrow> service_state \<Rightarrow>
   (ask_result list option \<times> reasoning option \<times> pydict list \<times> pydict list) \<times> service_state" where
  "check_historical_question e qid st =
     (let st1 = await e Historical_question 0 qid (invoke Historical_question None st)
      in case historical_question_run e of
           Inl ex \<Rightarrow> ((None, None, [], []), st1)
         | Inr documents \<Rightarrow>
             (let historical_question_result = take 1 documents
              in if historical_question_result \<noteq> [] then
                   (case comprehension (cached_ask_result e) historical_question_result of
                      Inl ex \<Rightarrow> ((None, None, [], []), st1)
                    | Inr api_results \<Rightarrow>
                        ((Some api_results, Some (Reasoning_str []), [], []), st1))
                 else
                   (case retrieve_sql_samples_and_instructions e qid st1 of
                      ((samples, instrs), st2) \<Rightarrow> ((None, None, samples, instrs), st2))))"

definition classify_intent ::
  "env \<Rightarrow> string \<Rightarrow> ask_history list \<Rightarrow> service_state \<Rightarrow>
   (string option \<times> string option \<times> string option \<times> string list option) \<times> service_state" where
  "classify_intent e qid hs st =
     (let st1 = await e Intent_classification 0 qid (invoke Intent_classification (Some hs) st)
      in case intent_classification_run e of
           Inl ex \<Rightarrow> ((None, None, None, None), st1)
         | Inr post_process \<Rightarrow>
             ((intent post_process, intent_rephrased_question post_process,
               reasoning post_process, db_schemas post_process), st1))"

definition general_metadata :: "string \<Rightarrow> ask_output" where
  "general_metadata t =
     \<lparr>ask_result = None,
      metadata = \<lparr>metadata_type = t, error_type = None, error_message = None,
                  metadata_request_from = None\<rparr>\<rparr>"

text \<open>
  \<^verbatim>\<open>_handle_general_query\<close>: the assistance pipeline is started as a task and not
  awaited; every pipeline name is registered by the builder and the status arguments
  are well typed, so the \<^verbatim>\<open>except\<close> branch is not reached.
\<close>

definition handle_general_query ::
  "env \<Rightarrow> string \<Rightarrow> string option \<Rightarrow> ask_history list \<Rightarrow> string option \<Rightarrow> string option \<Rightarrow>
   string option \<Rightarrow> bool \<Rightarrow> service_state \<Rightarrow> ask_output option \<times> service_state" where
  "handle_general_query e qid intnt hs rephrased ireasoning tid followup st =
     (let finished = \<lambda>g. (AskResultResponse Finished)
            \<lparr>ask_type := Some GENERAL, rephrased_question := rephrased,
             intent_reasoning := ireasoning, trace_id := tid, is_followup := followup,
             general_type := Some g\<rparr>
      in if intnt = Some ''MISLEADING_QUERY'' then
           (Some (general_metadata ''MISLEADING_QUERY''),
            update_status e qid (finished MISLEADING_QUERY)
              (invoke Misleading_assistance (Some hs) st))
         else if intnt = Some ''GENERAL'' then
           (Some (general_metadata ''GENERAL''),
            update_status e qid (finished DATA_ASSISTANCE)
              (invoke Data_assistance (Some hs) st))
         else if intnt = Some ''USER_GUIDE'' then
           (Some (general_metadata ''GENERAL''),
            update_status e qid (finished USER_GUIDE)
              (invoke User_guide_assistance None st))
         else
           (None,
            update_status e qid
              ((AskResultResponse Understanding)
                 \<lparr>ask_type := Some TEXT_TO_SQL, rephrased_question := rephrased,
                  intent_reasoning := ireasoning, trace_id := tid, is_followup := followup\<rparr>)
              st))"

section \<open>Schema retrieval, planning and generation\<close>

text \<open>Pydantic's \<^verbatim>\<open>ValidationError\<close> is a subclass of \<^verbatim>\<open>ValueError\<close>.\<close>

fun is_value_error :: "exc \<Rightarrow> bool" where
  "is_value_error (ValueError m) = True"
| "is_value_error (ValidationError m) = True"
| "is_value_error _ = False"

text \<open>
  \<^verbatim>\<open>_retrieve_database_schemas\<close> always leaves by returning the tables or by raising
  \<^verbatim>\<open>ValueError\<close>: a \<^verbatim>\<open>ValueError\<close> is re-raised as it is, any other exception is
  replaced by \<^verbatim>\<open>ValueError("NO_RELEVANT_DATA")\<close>.
\<close>

definition retrieve_database_schemas ::
  "env \<Rightarrow> string \<Rightarrow> ask_history list \<Rightarrow> string option \<Rightarrow> bool \<Rightarrow> string option \<Rightarrow> string option \<Rightarrow>
   service_state \<Rightarrow> (exc + string list \<times> string list \<times> retrieval_output) \<times> service_state" where
  "retrieve_database_schemas e qid hs tid followup rephrased ireasoning st =
     (let st1 = update_status e qid
                  ((AskResultResponse Searching)
                     \<lparr>trace_id := tid, is_followup := followup, ask_type := Some TEXT_TO_SQL,
                      rephrased_question := rephrased, intent_reasoning := ireasoning\<rparr>)
                  st;
          st2 = await e Db_schema_retrieval 0 qid (invoke Db_schema_retrieval (Some hs) st1)
      in case db_schema_retrieval_run e of
           Inl ex \<Rightarrow>
             (Inl (if is_value_error ex then ex else ValueError ''NO_RELEVANT_DATA''), st2)
         | Inr retrieval_result \<Rightarrow>
             (let documents = retrieval_results retrieval_result
              in if documents = [] then
                   (Inl (ValueError ''NO_RELEVANT_DATA''),
                    if \<not> is_stopped qid (ask_results st2) then
                      update_status e qid
                        ((AskResultResponse Failed)
                           \<lparr>trace_id := tid, is_followup := followup,
                            ask_type := Some TEXT_TO_SQL,
                            error := Some \<lparr>code = NO_RELEVANT_DATA, message = ''No relevant data''\<rparr>,
                            rephrased_question := rephrased, intent_reasoning := ireasoning\<rparr>)
                        st2
                    else st2)
                 else
                   (Inr (map table_name documents, map table_ddl documents, retrieval_result),
                    st2)))"

text \<open>
  The text stored for a planning value: a string as it is, a non-empty dictionary
  through \<^verbatim>\<open>json.dumps\<close>, anything else \<^verbatim>\<open>None\<close>.
\<close>

definition reasoning_text :: "env \<Rightarrow> reasoning option \<Rightarrow> reasoning option" where
  "reasoning_text e r =
     (case r of
        Some (Reasoning_str s) \<Rightarrow> Some (Reasoning_str s)
      | Some (Reasoning_dict d) \<Rightarrow> (if d \<noteq> [] then Some (Reasoning_str (json_dumps e d)) else None)
      | None \<Rightarrow> None)"

definition generate_sql_reasoning ::
  "env \<Rightarrow> string \<Rightarrow> string list option \<Rightarrow> ask_history list \<Rightarrow> string option \<Rightarrow> bool \<Rightarrow>
   string option \<Rightarrow> string option \<Rightarrow> service_state \<Rightarrow> reasoning \<times> service_state" where
  "generate_sql_reasoning e qid tables hs tid followup rephrased ireasoning st =
     (let planning = \<lambda>text. (AskResultResponse Planning)
            \<lparr>ask_type := Some TEXT_TO_SQL, rephrased_question := rephrased,
             intent_reasoning := ireasoning, retrieved_tables := tables,
             sql_generation_reasoning := text, trace_id := tid, is_followup := followup\<rparr>;
          st1 = update_status e qid (planning None) st;
          st2 = (if hs \<noteq> [] then
                   await e Followup_sql_generation_reasoning 0 qid
                     (invoke Followup_sql_generation_reasoning (Some hs) st1)
                 else
                   await e Sql_generation_reasoning 0 qid
                     (invoke Sql_generation_reasoning None st1))
      in case (if hs \<noteq> [] then followup_sql_generation_reasoning_run e
               else sql_generation_reasoning_run e) of
           Inl ex \<Rightarrow> (Reasoning_dict [], st2)
         | Inr sgr \<Rightarrow> (sgr, update_status e qid (planning (reasoning_text e (Some sgr))) st2))"

text \<open>
  \<^verbatim>\<open>_generate_sql\<close> returns the result dictionary of the generation pipeline, given
  here by its \<^verbatim>\<open>post_process\<close> entry, and the empty dictionary (\<open>None\<close>) when a call
  raised.
\<close>

definition generate_sql ::
  "ask_service \<Rightarrow> env \<Rightarrow> string \<Rightarrow> string list option \<Rightarrow> ask_history list \<Rightarrow> reasoning option \<Rightarrow>
   string option \<Rightarrow> bool \<Rightarrow> string option \<Rightarrow> string option \<Rightarrow> service_state \<Rightarrow>
   generation_post_process option \<times> service_state" where
  "generate_sql svc e qid tables hs sgr tid followup rephrased ireasoning st =
     (let st1 = update_status e qid
                  ((AskResultResponse Generating)
                     \<lparr>ask_type := Some TEXT_TO_SQL, rephrased_question := rephrased,
                      intent_reasoning := ireasoning, retrieved_tables := tables,
                      sql_generation_reasoning := reasoning_text e sgr,
                      trace_id := tid, is_followup := followup\<rparr>)
                  st;
          st2 = (if allow_sql_functions_retrieval svc then
                   await e Sql_functions_retrieval 0 qid (invoke Sql_functions_retrieval None st1)
                 else st1)
      in case (if allow_sql_functions_retrieval svc then sql_functions_retrieval_run e
               else Inr []) of
           Inl ex \<Rightarrow> (None, st2)
         | Inr sql_functions \<Rightarrow>
             (if hs \<noteq> [] then
                (let st3 = await e Followup_sql_generation 0 qid
                             (invoke Followup_sql_generation (Some hs) st2)
                 in case followup_sql_generation_run e of
                      Inl ex \<Rightarrow> (None, st3)
                    | Inr generation_results \<Rightarrow> (generation_results, st3))
              else
                (let st3 = await e Sql_generation 0 qid (invoke Sql_generation None st2)
                 in case sql_generation_run e of
                      Inl ex \<Rightarrow> (None, st3)
                    | Inr generation_results \<Rightarrow> (generation_results, st3))))"

section \<open>The SQL correction loop\<close>

text \<open>
  One pass through the body of the \<^verbatim>\<open>while\<close> loop of \<^verbatim>\<open>_correct_sql\<close>, entered
  with \<^verbatim>\<open>current_retries < max_retries\<close>. It ends the loop (by \<^verbatim>\<open>break\<close>, with the
  results so far, or by an exception) or goes on with the next failed result. The
  variables \<^verbatim>\<open>invalid_sql\<close> and \<^verbatim>\<open>error_message\<close> are returned as the pass leaves
  them, since the \<^verbatim>\<open>except\<close> handler reads \<^verbatim>\<open>invalid_sql\<close>.
\<close>

datatype loop_exit =
    Raise exc
  | Break "ask_result list option"
  | Continue "pydict option"

definition correction_pass ::
  "env \<Rightarrow> string \<Rightarrow> reasoning ask_result_response \<Rightarrow> nat \<Rightarrow> pydict option \<Rightarrow> string option \<Rightarrow>
   string option \<Rightarrow> service_state \<Rightarrow> loop_exit \<times> string option \<times> string option \<times> service_state" where
  "correction_pass e qid correcting n failed_result inv_sql err_message st =
     (case failed_result of
        None \<Rightarrow> (Raise (TypeError not_subscriptable), inv_sql, err_message, st)
      | Some fr \<Rightarrow>
          (case subscript fr ''sql'' of
             Inl ex \<Rightarrow> (Raise ex, inv_sql, err_message, st)
           | Inr s \<Rightarrow>
               (if get fr ''type'' = Some ''TIME_OUT'' then
                  (Break None, Some s, get fr ''error'', st)
                else
                  (let st1 = update_status e qid correcting st;
                       st2 = await e Sql_correction n qid (invoke Sql_correction None st1)
                   in case sql_correction_run e n of
                        Inl ex \<Rightarrow> (Raise ex, Some s, get fr ''error'', st2)
                      | Inr None \<Rightarrow> (Raise (KeyError ''post_process''), Some s, get fr ''error'', st2)
                      | Inr (Some post_process) \<Rightarrow>
                          (case valid_generation_result post_process of
                             Absent \<Rightarrow>
                               (Raise (KeyError ''valid_generation_result''), Some s,
                                get fr ''error'', st2)
                           | v \<Rightarrow>
                               (case truthy_dict v of
                                  Some valid \<Rightarrow>
                                    (case get valid ''sql'' of
                                       None \<Rightarrow>
                                         (Raise (ValidationError (validation_message e)), Some s,
                                          get fr ''error'', st2)
                                     | Some fixed \<Rightarrow>
                                         (Break (Some [\<lparr>sql = fixed, result_type = Llm, viewId = None\<rparr>]),
                                          Some s, get fr ''error'', st2))
                                | None \<Rightarrow>
                                    (case invalid_generation_result post_process of
                                       Absent \<Rightarrow>
                                         (Raise (KeyError ''invalid_generation_result''), Some s,
                                          get fr ''error'', st2)
                                     | Null \<Rightarrow> (Continue None, Some s, get fr ''error'', st2)
                                     | Value d \<Rightarrow> (Continue (Some d), Some s, get fr ''error'', st2))))))))"

text \<open>
  The loop. \<^verbatim>\<open>current_retries\<close> starts at 0 and grows by one before each call of the
  correction pipeline, so it also numbers the calls. The result is how the loop was
  left (\<open>Continue\<close> with the last failed result when the condition became false).
\<close>

function correction_loop ::
  "env \<Rightarrow> string \<Rightarrow> reasoning ask_result_response \<Rightarrow> int \<Rightarrow> int \<Rightarrow> pydict option \<Rightarrow> string option \<Rightarrow>
   string option \<Rightarrow> service_state \<Rightarrow> loop_exit \<times> string option \<times> string option \<times> service_state" where
  "correction_loop e qid correcting max_retries current_retries failed_result inv_sql err_message st =
     (if current_retries < max_retries then
        (case correction_pass e qid correcting (nat current_retries) failed_result inv_sql
                err_message st of
           (Continue failed_result', inv_sql', err_message', st') \<Rightarrow>
             correction_loop e qid correcting max_retries (current_retries + 1) failed_result'
               inv_sql' err_message' st'
         | left \<Rightarrow> left)
      else (Continue failed_result, inv_sql, err_message, st))"
  by pat_completeness auto

termination
  by (relation "measure (\<lambda>(e, qid, correcting, max_retries, current_retries, rest).
                  nat (max_retries - current_retries))") auto

declare correction_loop.simps [simp del]

definition correct_sql ::
  "env \<Rightarrow> string \<Rightarrow> pydict option \<Rightarrow> string list option \<Rightarrow> int \<Rightarrow> string option \<Rightarrow> bool \<Rightarrow>
   string option \<Rightarrow> string option \<Rightarrow> service_state \<Rightarrow>
   (ask_result list option \<times> string option \<times> string option) \<times> service_state" where
  "correct_sql e qid invalid_result tables max_retries tid followup rephrased ireasoning st =
     (let correcting = (AskResultResponse Correcting)
            \<lparr>ask_type := Some TEXT_TO_SQL, rephrased_question := rephrased,
             intent_reasoning := ireasoning, retrieved_tables := tables,
             sql_generation_reasoning := None, trace_id := tid, is_followup := followup\<rparr>
      in case correction_loop e qid correcting max_retries 0 invalid_result None None st of
           (Raise ex, inv_sql, err_message, st') \<Rightarrow> ((None, inv_sql, Some (str_exc ex)), st')
         | (Break (Some api_results), inv_sql, err_message, st') \<Rightarrow>
             ((Some api_results, inv_sql, err_message), st')
         | (Break None, inv_sql, err_message, st') \<Rightarrow>
             \<comment> \<open>left at \<^verbatim>\<open>TIME_OUT\<close>: the failed result is the one just read, so reading
                 \<^verbatim>\<open>sql\<close> and \<^verbatim>\<open>error\<close> from it again changes nothing\<close>
             ((None, inv_sql, err_message), st')
         | (Continue failed_result, inv_sql, err_message, st') \<Rightarrow>
             (case failed_result of
                Some fr \<Rightarrow>
                  (if fr \<noteq> [] then
                     ((None, get_default fr ''sql'' inv_sql, get_default fr ''error'' err_message), st')
                   else ((None, inv_sql, err_message), st'))
              | None \<Rightarrow> ((None, inv_sql, err_message), st')))"

section \<open>Formatting the response\<close>

definition or_else :: "string option \<Rightarrow> string \<Rightarrow> string" where
  "or_else s dflt = (case s of None \<Rightarrow> dflt | Some v \<Rightarrow> (if v = [] then dflt else v))"

definition truthy_list :: "'a list option \<Rightarrow> bool" where
  "truthy_list xs = (case xs of None \<Rightarrow> False | Some l \<Rightarrow> l \<noteq> [])"

definition text_to_sql_metadata :: "string \<Rightarrow> string \<Rightarrow> string \<Rightarrow> metadata" where
  "text_to_sql_metadata etype emessage rfrom =
     \<lparr>metadata_type = ''TEXT_TO_SQL'', error_type = Some etype, error_message = Some emessage,
      metadata_request_from = Some rfrom\<rparr>"

definition format_final_response ::
  "env \<Rightarrow> string \<Rightarrow> ask_result list option \<Rightarrow> string option \<Rightarrow> string option \<Rightarrow> string option \<Rightarrow>
   string option \<Rightarrow> string list option \<Rightarrow> reasoning option \<Rightarrow> string option \<Rightarrow> bool \<Rightarrow> string \<Rightarrow>
   service_state \<Rightarrow> ask_output \<times> service_state" where
  "format_final_response e qid api_results err_message inv_sql rephrased ireasoning tables sgr
     tid followup rfrom st =
     (if truthy_list api_results then
        (\<lparr>ask_result = api_results, metadata = text_to_sql_metadata [] [] rfrom\<rparr>,
         if \<not> is_stopped qid (ask_results st) then
           update_status e qid
             ((AskResultResponse Finished)
                \<lparr>trace_id := tid, is_followup := followup, ask_type := Some TEXT_TO_SQL,
                 response := api_results, rephrased_question := rephrased,
                 intent_reasoning := ireasoning, retrieved_tables := tables,
                 sql_generation_reasoning := sgr\<rparr>)
             st
         else st)
      else
        (\<lparr>ask_result = None,
          metadata = text_to_sql_metadata ''NO_RELEVANT_SQL'' (or_else err_message []) rfrom\<rparr>,
         if \<not> is_stopped qid (ask_results st) then
           update_status e qid
             ((AskResultResponse Failed)
                \<lparr>trace_id := tid, is_followup := followup, ask_type := Some TEXT_TO_SQL,
                 error := Some \<lparr>code = NO_RELEVANT_SQL,
                                message = or_else err_message ''No relevant SQL''\<rparr>,
                 rephrased_question := rephrased, intent_reasoning := ireasoning,
                 retrieved_tables := tables, sql_generation_reasoning := sgr,
                 invalid_sql := inv_sql\<rparr>)
             st
         else st))"

definition format_cached_response ::
  "env \<Rightarrow> string \<Rightarrow> ask_result list \<Rightarrow> string option \<Rightarrow> string option \<Rightarrow> string list \<Rightarrow>
   reasoning option \<Rightarrow> string option \<Rightarrow> bool \<Rightarrow> string \<Rightarrow> service_state \<Rightarrow> ask_output \<times> service_state" where
  "format_cached_response e qid api_results rephrased ireasoning tables sgr tid followup rfrom st =
     (\<lparr>ask_result = Some api_results, metadata = text_to_sql_metadata [] [] rfrom\<rparr>,
      if \<not> is_stopped qid (ask_results st) then
        update_status e qid
          ((AskResultResponse Finished)
             \<lparr>trace_id := tid, is_followup := followup, ask_type := Some TEXT_TO_SQL,
              response := Some api_results, rephrased_question := rephrased,
              intent_reasoning := ireasoning, retrieved_tables := Some tables,
              sql_generation_reasoning := sgr\<rparr>)
          st
      else st)"

definition format_response ::
  "env \<Rightarrow> string \<Rightarrow> ask_result list option \<Rightarrow> string option \<Rightarrow> string option \<Rightarrow> string option \<Rightarrow>
   string option \<Rightarrow> string list option \<Rightarrow> reasoning option \<Rightarrow> string option \<Rightarrow> bool \<Rightarrow> string \<Rightarrow>
   service_state \<Rightarrow> ask_output \<times> service_state" where
  "format_response = format_final_response"

section \<open>The ask flow\<close>

definition general_intents :: "string list" where
  "general_intents = [''GENERAL'', ''MISLEADING_QUERY'', ''USER_GUIDE'']"

definition is_general :: "string option \<Rightarrow> bool" where
  "is_general intnt = (case intnt of None \<Rightarrow> False | Some i \<Rightarrow> i \<in> set general_intents)"

definition handle_cache_hit ::
  "ask_service \<Rightarrow> env \<Rightarrow> ask_request \<Rightarrow> ask_context \<Rightarrow> ask_result list \<Rightarrow> reasoning option \<Rightarrow>
   service_state \<Rightarrow> ask_output option \<times> service_state" where
  "handle_cache_hit svc e req context api_results sgr st =
     (let qid = ctx_query_id context; hs = ctx_histories context
      in if allow_intent_classification svc then
           (case classify_intent e qid hs st of
              ((intnt, rephrased, ireasoning, schemas), st1) \<Rightarrow>
                (if is_general intnt then
                   handle_general_query e qid intnt hs rephrased ireasoning (ctx_trace_id context)
                     (hs \<noteq> []) st1
                 else
                   (case format_cached_response e qid api_results rephrased ireasoning []
                           sgr (ctx_trace_id context) (hs \<noteq> []) (request_from req) st1 of
                      (out, st2) \<Rightarrow> (Some out, st2))))
         else
           (case format_cached_response e qid api_results (ctx_rephrased_question context)
                   (ctx_intent_reasoning context) [] sgr (ctx_trace_id context) (hs \<noteq> [])
                   (request_from req) st of
              (out, st2) \<Rightarrow> (Some out, st2)))"

text \<open>
  Steps 7 and 8 of \<^verbatim>\<open>ask\<close>: generation, correction when the generated SQL is invalid,
  and the final response. Reading a missing key of the generation result raises.
\<close>

definition generate_and_format ::
  "ask_service \<Rightarrow> env \<Rightarrow> ask_request \<Rightarrow> ask_context \<Rightarrow> service_state \<Rightarrow>
   (exc + ask_output option) \<times> service_state" where
  "generate_and_format svc e req context st =
     (let qid = ctx_query_id context; hs = ctx_histories context; tid = ctx_trace_id context;
          rephrased = ctx_rephrased_question context; ireasoning = ctx_intent_reasoning context;
          tables = table_names context; sgr = ctx_sql_generation_reasoning context;
          finish = (\<lambda>api_results inv_sql err_message s.
             case format_response e qid api_results err_message inv_sql rephrased ireasoning
                    tables sgr tid (hs \<noteq> []) (request_from req) s of
               (out, s') \<Rightarrow> (Inr (Some out), s'))
      in if \<not> is_stopped qid (ask_results st) then
           (case generate_sql svc e qid tables hs sgr tid (hs \<noteq> []) rephrased ireasoning st of
              (None, st1) \<Rightarrow> (Inl (KeyError ''post_process''), st1)
            | (Some post_process, st1) \<Rightarrow>
                (case valid_generation_result post_process of
                   Absent \<Rightarrow> (Inl (KeyError ''valid_generation_result''), st1)
                 | v \<Rightarrow>
                     (case truthy_dict v of
                        Some sql_valid_result \<Rightarrow>
                          (case get sql_valid_result ''sql'' of
                             None \<Rightarrow> (Inl (ValidationError (validation_message e)), st1)
                           | Some s \<Rightarrow>
                               finish (Some [\<lparr>sql = s, result_type = Llm, viewId = None\<rparr>])
                                 None None st1)
                      | None \<Rightarrow>
                          (case invalid_generation_result post_process of
                             Absent \<Rightarrow> (Inl (KeyError ''invalid_generation_result''), st1)
                           | iv \<Rightarrow>
                               (case truthy_dict iv of
                                  Some failed_dry_run_result \<Rightarrow>
                                    (case correct_sql e qid (Some failed_dry_run_result) tables
                                            (max_sql_correction_retries svc) tid (hs \<noteq> [])
                                            rephrased ireasoning st1 of
                                       ((api_results, inv_sql, err_message), st2) \<Rightarrow>
                                         finish api_results inv_sql err_message st2)
                                | None \<Rightarrow> finish (Some []) None None st1)))))
         else finish (Some []) None None st)"

definition no_relevant_data :: "string \<Rightarrow> ask_output" where
  "no_relevant_data rfrom =
     \<lparr>ask_result = None, metadata = text_to_sql_metadata ''NO_RELEVANT_DATA'' [] rfrom\<rparr>"

text \<open>
  Steps 5 to 8 of \<^verbatim>\<open>ask\<close>, for a question that is not a general one: schema
  retrieval (whose \<^verbatim>\<open>ValueError\<close> ends the run with the \<^verbatim>\<open>NO_RELEVANT_DATA\<close>
  result), planning when it is enabled, then generation and the response.
\<close>

definition retrieve_and_generate ::
  "ask_service \<Rightarrow> env \<Rightarrow> ask_request \<Rightarrow> ask_context \<Rightarrow> string option \<Rightarrow> string option \<Rightarrow>
   service_state \<Rightarrow> (exc + ask_output option) \<times> service_state" where
  "retrieve_and_generate svc e req context rephrased ireasoning st =
     (let qid = query_id req; hs = ctx_histories context; tid = ctx_trace_id context
      in case retrieve_database_schemas e qid hs tid (hs \<noteq> []) rephrased ireasoning st of
           (Inl ex, st1) \<Rightarrow> (Inr (Some (no_relevant_data (request_from req))), st1)
         | (Inr (names, ddls, retrieval_result), st1) \<Rightarrow>
             (let context1 = context
                    \<lparr>ctx_rephrased_question := rephrased,
                     ctx_intent_reasoning := ireasoning,
                     table_names := Some names, table_ddls := Some ddls\<rparr>
              in if allow_sql_generation_reasoning svc
                    \<and> \<not> ignore_sql_generation_reasoning req then
                   (case generate_sql_reasoning e qid (Some names) hs tid (hs \<noteq> [])
                           rephrased ireasoning st1 of
                      (r, st2) \<Rightarrow>
                        generate_and_format svc e req
                          (context1\<lparr>ctx_sql_generation_reasoning := Some r\<rparr>) st2)
                 else generate_and_format svc e req context1 st1))"

text \<open>The body of the \<^verbatim>\<open>try\<close> of \<^verbatim>\<open>ask\<close>: its value, or the exception that leaves it.\<close>

definition ask_body ::
  "ask_service \<Rightarrow> env \<Rightarrow> ask_request \<Rightarrow> ask_context \<Rightarrow> service_state \<Rightarrow>
   (exc + ask_output option) \<times> service_state" where
  "ask_body svc e req context st =
     (let qid = query_id req; hs = ctx_histories context; tid = ctx_trace_id context;
          st1 = (if \<not> is_stopped qid (ask_results st) then
                   update_status e qid
                     ((AskResultResponse Understanding)\<lparr>trace_id := tid, is_followup := (hs \<noteq> [])\<rparr>)
                     st
                 else st)
      in case check_historical_question e qid st1 of
           ((Some api_results, sgr, samples, instrs), st2) \<Rightarrow>
             (case handle_cache_hit svc e req context api_results sgr st2 of
                (out, st3) \<Rightarrow> (Inr out, st3))
         | ((None, sgr, samples, instrs), st2) \<Rightarrow>
             (case classify_intent e qid hs st2 of
                ((intnt, rephrased, ireasoning, schemas), st3) \<Rightarrow>
                  (if is_general intnt then
                     (case handle_general_query e qid intnt hs rephrased ireasoning tid (hs \<noteq> []) st3 of
                        (out, st4) \<Rightarrow> (Inr out, st4))
                   else retrieve_and_generate svc e req context rephrased ireasoning st3)))"

text \<open>
  \<^verbatim>\<open>ask\<close>: an exception raised while the context is built leaves the method; an
  exception that leaves the \<^verbatim>\<open>try\<close> body is turned into a failed record and an
  \<^verbatim>\<open>OTHERS\<close> result.
\<close>

definition ask ::
  "ask_service \<Rightarrow> env \<Rightarrow> ask_request \<Rightarrow> string option \<Rightarrow> service_state \<Rightarrow>
   (exc + ask_output option) \<times> service_state" where
  "ask svc e req tid st =
     (case AskContext svc req tid of
        Inl ex \<Rightarrow> (Inl ex, st)
      | Inr context \<Rightarrow>
          (case ask_body svc e req context st of
             (Inr out, st1) \<Rightarrow> (Inr out, st1)
           | (Inl ex, st1) \<Rightarrow>
               (Inr (Some \<lparr>ask_result = None,
                           metadata = text_to_sql_metadata ''OTHERS'' (str_exc ex) (request_from req)\<rparr>),
                update_status e (query_id req)
                  ((AskResultResponse Failed)
                     \<lparr>trace_id := tid, is_followup := (ctx_histories context \<noteq> []),
                      ask_type := Some TEXT_TO_SQL,
                      error := Some \<lparr>code = OTHERS, message = str_exc ex\<rparr>\<rparr>)
                  st1)))"

section \<open>The job store as a TTL cache\<close>

text \<open>
  \<^verbatim>\<open>self._ask_results\<close> is a \<^verbatim>\<open>cachetools.TTLCache\<close>. Of that container the model keeps
  what the service relies on: an item stored at clock reading \<open>t\<close> expires at
  \<open>t + ttl\<close>, and a lookup at reading \<open>now\<close> sees an item only while \<open>now\<close> is
  before its expiry. Eviction by \<^verbatim>\<open>maxsize\<close> removes items too; a removed item is
  an absent one. The flow above works on the mapping a lookup sees.
\<close>

record 'v ttl_cache =
  ttl :: nat
  items :: "string \<rightharpoonup> nat \<times> 'v"

definition TTLCache :: "nat \<Rightarrow> 'v ttl_cache" where
  "TTLCache seconds = \<lparr>ttl = seconds, items = Map.empty\<rparr>"

definition default_ttl :: nat where
  "default_ttl = 120"

definition setitem :: "nat \<Rightarrow> string \<Rightarrow> 'v \<Rightarrow> 'v ttl_cache \<Rightarrow> 'v ttl_cache" where
  "setitem now k v c = c\<lparr>items := (items c)(k \<mapsto> (now + ttl c, v))\<rparr>"

definition visible :: "'v ttl_cache \<Rightarrow> nat \<Rightarrow> (string \<rightharpoonup> 'v)" where
  "visible c now k =
     (case items c k of
        None \<Rightarrow> None
      | Some (expires, v) \<Rightarrow> (if now < expires then Some v else None))"

section \<open>Post-processing of the intent classification reply\<close>

text \<open>
  \<^verbatim>\<open>post_process\<close> of \<^verbatim>\<open>src/pipelines/generation/intent_classification.py\<close>. The JSON
  parser \<^verbatim>\<open>orjson.loads\<close> is a parameter; numbers are kept as integers, which the
  function never inspects.
\<close>

datatype json =
    JNull
  | JBool bool
  | JNumber int
  | JString string
  | JArray "json list"
  | JObject "(string \<times> json) list"

fun json_subscript :: "json \<Rightarrow> string \<Rightarrow> exc + json" where
  "json_subscript (JObject kvs) k =
     (case map_of kvs k of None \<Rightarrow> Inl (KeyError k) | Some v \<Rightarrow> Inr v)"
| "json_subscript JNull k = Inl (TypeError not_subscriptable)"
| "json_subscript (JArray xs) k = Inl (TypeError ''list indices must be integers or slices, not str'')"
| "json_subscript (JString s) k = Inl (TypeError ''string indices must be integers'')"
| "json_subscript _ k = Inl (TypeError ''object is not subscriptable'')"

record intent_post_process =
  pp_rephrased_question :: json
  pp_intent :: json
  pp_reasoning :: json
  pp_db_schemas :: "string list"

text \<open>\<^verbatim>\<open>classify_intent.get("replies")[0]\<close>, with the reply list absent, empty or not.\<close>

definition first_reply :: "string list option \<Rightarrow> exc + string" where
  "first_reply replies =
     (case replies of
        None \<Rightarrow> Inl (TypeError not_subscriptable)
      | Some [] \<Rightarrow> Inl (IndexError ''list index out of range'')
      | Some (r # rs) \<Rightarrow> Inr r)"

definition post_process_try ::
  "(string \<Rightarrow> exc + json) \<Rightarrow> string list option \<Rightarrow> string list \<Rightarrow> exc + intent_post_process" where
  "post_process_try loads replies construct_db_schemas =
     (case first_reply replies of
        Inl ex \<Rightarrow> Inl ex
      | Inr r \<Rightarrow>
          (case loads r of
             Inl ex \<Rightarrow> Inl ex
           | Inr results \<Rightarrow>
               (case json_subscript results ''rephrased_question'' of
                  Inl ex \<Rightarrow> Inl ex
                | Inr rq \<Rightarrow>
                    (case json_subscript results ''results'' of
                       Inl ex \<Rightarrow> Inl ex
                     | Inr i \<Rightarrow>
                         (case json_subscript results ''reasoning'' of
                            Inl ex \<Rightarrow> Inl ex
                          | Inr rs \<Rightarrow>
                              Inr \<lparr>pp_rephrased_question = rq, pp_intent = i,
                                   pp_reasoning = rs,
                                   pp_db_schemas = construct_db_schemas\<rparr>)))))"

definition post_process ::
  "(string \<Rightarrow> exc + json) \<Rightarrow> string list option \<Rightarrow> string list \<Rightarrow> intent_post_process" where
  "post_process loads replies construct_db_schemas =
     (case post_process_try loads replies construct_db_schemas of
        Inr out \<Rightarrow> out
      | Inl ex \<Rightarrow>
          \<lparr>pp_rephrased_question = JString [], pp_intent = JString ''TEXT_TO_SQL'',
           pp_reasoning = JString [], pp_db_schemas = construct_db_schemas\<rparr>)"

text \<open>
  The cases in which reading the reply fails: no reply list, an empty one, a reply
  the parser rejects, a parsed value that is not an object, or an object without one
  of the three keys.
\<close>

definition reply_unusable :: "(string \<Rightarrow> exc + json) \<Rightarrow> string list option \<Rightarrow> bool" where
  "reply_unusable loads replies =
     (case replies of
        None \<Rightarrow> True
      | Some [] \<Rightarrow> True
      | Some (r # rs) \<Rightarrow>
          (case loads r of
             Inl ex \<Rightarrow> True
           | Inr (JObject kvs) \<Rightarrow>
               map_of kvs ''rephrased_question'' = None \<or> map_of kvs ''results'' = None
               \<or> map_of kvs ''reasoning'' = None
           | Inr other \<Rightarrow> True))"

section \<open>Sample requests and environments\<close>

text \<open>
  A request without history, the store as the router leaves it before the background
  task starts, and an environment in which every pipeline answers: no cached
  question, intent \<^verbatim>\<open>TEXT_TO_SQL\<close>, one table, valid SQL at the first attempt.
\<close>

definition request0 :: ask_request where
  "request0 = \<lparr>query_id = ''q1'', query = ''total sales'', histories = Some [],
               ignore_sql_generation_reasoning = False, request_from = ''api''\<rparr>"

definition state0 :: service_state where
  "state0 = \<lparr>ask_results = [''q1'' \<mapsto> AskResultResponse Understanding], trace = []\<rparr>"

definition invalid_generation :: generation_post_process where
  "invalid_generation =
     \<lparr>valid_generation_result = Null,
      invalid_generation_result = Value [(''sql'', ''SELEC 1''), (''error'', ''syntax'')]\<rparr>"

definition valid_generation :: generation_post_process where
  "valid_generation =
     \<lparr>valid_generation_result = Value [(''sql'', ''SELECT 1'')],
      invalid_generation_result = Null\<rparr>"

definition env0 :: env where
  "env0 =
     \<lparr>historical_question_run = Inr [],
      sql_pairs_retrieval_run = Inr [],
      instructions_retrieval_run = Inr [],
      intent_classification_run =
        Inr \<lparr>intent = Some ''TEXT_TO_SQL'', intent_rephrased_question = Some ''total sales'',
             reasoning = Some ''asks for data'', db_schemas = Some []\<rparr>,
      db_schema_retrieval_run =
        Inr \<lparr>retrieval_results = [\<lparr>table_name = ''sales'', table_ddl = ''CREATE TABLE sales''\<rparr>],
             has_calculated_field = False, has_metric = False, has_json_field = False\<rparr>,
      sql_generation_reasoning_run = Inr (Reasoning_str ''sum the amounts''),
      followup_sql_generation_reasoning_run = Inr (Reasoning_str ''sum the amounts''),
      sql_functions_retrieval_run = Inr [],
      sql_generation_run = Inr (Some valid_generation),
      followup_sql_generation_run = Inr (Some valid_generation),
      sql_correction_run = (\<lambda>n. Inr (Some invalid_generation)),
      stop_during = (\<lambda>p n. False),
      json_dumps = (\<lambda>d. ''{}''),
      validation_message = ''validation error''\<rparr>"

text \<open>A parser that rejects every reply.\<close>

definition loads_rejecting :: "string \<Rightarrow> exc + json" where
  "loads_rejecting s = Inl (ValueError ''unexpected character'')"

text \<open>
  The correction pipeline repairs the SQL at its second call (call number 1).
\<close>

definition env_second_fix :: env where
  "env_second_fix =
     env0\<lparr>sql_generation_run := Inr (Some invalid_generation),
          sql_correction_run := (\<lambda>n. if n = 1 then Inr (Some valid_generation)
                                      else Inr (Some invalid_generation))\<rparr>"

text \<open>A follow-up request with three history entries, for a service that keeps two.\<close>

definition history1 :: ask_history where
  "history1 = \<lparr>history_sql = ''SELECT 1'', history_question = ''first''\<rparr>"

definition history2 :: ask_history where
  "history2 = \<lparr>history_sql = ''SELECT 2'', history_question = ''second''\<rparr>"

definition history3 :: ask_history where
  "history3 = \<lparr>history_sql = ''SELECT 3'', history_question = ''third''\<rparr>"

definition request_followup :: ask_request where
  "request_followup = request0\<lparr>histories := Some [history1, history2, history3]\<rparr>"

definition service_two_histories :: ask_service where
  "service_two_histories = default_service\<lparr>max_histories := 2\<rparr>"

text \<open>
  Environments for single runs: the classifier says \<^verbatim>\<open>GENERAL\<close>; the question was
  asked before (two cached documents); both at once; a stop request is served while
  the cache is consulted; the schema retrieval pipeline raises.
\<close>

definition env_general :: env where
  "env_general =
     env0\<lparr>intent_classification_run :=
            Inr \<lparr>intent = Some ''GENERAL'', intent_rephrased_question = Some ''what can you do'',
                 reasoning = Some ''asks about the data set'', db_schemas = Some []\<rparr>\<rparr>"


definition cached_document :: historical_document where
  "cached_document = \<lparr>statement = Some ''SELECT * FROM orders'', document_viewId = Some ''view-7''\<rparr>"

definition other_document :: historical_document where
  "other_document = \<lparr>statement = Some ''SELECT * FROM customers'', document_viewId = None\<rparr>"

definition env_cached :: env where
  "env_cached = env0\<lparr>historical_question_run := Inr [cached_document, other_document]\<rparr>"

definition env_cached_general :: env where
  "env_cached_general = env_general\<lparr>historical_question_run := Inr [cached_document]\<rparr>"

definition env_stop_early :: env where
  "env_stop_early = env0\<lparr>stop_during := (\<lambda>p n. p = Historical_question)\<rparr>"

definition env_schema_error :: env where
  "env_schema_error = env0\<lparr>db_schema_retrieval_run := Inl (PipelineError ''connection refused'')\<rparr>"

section \<open>Observations on a run\<close>

text \<open>The number of calls of the correction pipeline in a log.\<close>

definition correction_calls :: "event list \<Rightarrow> nat" where
  "correction_calls evs = count_list evs (Run Sql_correction None)"

text \<open>A pipeline call yields a valid generation result: the entry is a non-empty dictionary.\<close>

definition yields_valid :: "exc + generation_post_process option \<Rightarrow> bool" where
  "yields_valid r =
     (case r of
        Inr (Some pp) \<Rightarrow> truthy_dict (valid_generation_result pp) \<noteq> None
      | _ \<Rightarrow> False)"

text \<open>
  The events a run logs between two states, and the invariant used to reason about
  them: every event logged from position \<open>n\<close> on satisfies \<open>P\<close>.
\<close>

definition run_events :: "service_state \<Rightarrow> service_state \<Rightarrow> event list" where
  "run_events st st' = drop (length (trace st)) (trace st')"

definition since :: "nat \<Rightarrow> (event \<Rightarrow> bool) \<Rightarrow> service_state \<Rightarrow> bool" where
  "since n P st \<longleftrightarrow> n \<le> length (trace st) \<and> (\<forall>ev\<in>set (drop n (trace st)). P ev)"

text \<open>The pipelines a log invokes, in order, and the statuses it stores.\<close>

definition invoked :: "event list \<Rightarrow> pipeline list" where
  "invoked evs = concat (map (\<lambda>ev. case ev of Run p h \<Rightarrow> [p] | Write s \<Rightarrow> []) evs)"

definition is_assistance :: "pipeline \<Rightarrow> bool" where
  "is_assistance p \<longleftrightarrow> p \<in> {Misleading_assistance, Data_assistance, User_guide_assistance}"

definition written :: "event list \<Rightarrow> ask_status list" where
  "written evs = concat (map (\<lambda>ev. case ev of Write s \<Rightarrow> [s] | Run p h \<Rightarrow> []) evs)"

section \<open>Properties of the store operations\<close>

text \<open>
  Claim C10. For every query id, \<^verbatim>\<open>stop_ask\<close> replaces the job record by a fresh one
  whose status is \<^verbatim>\<open>stopped\<close> and whose other fields all have their defaults,
  whatever the store held for that id before (a finished record with results, or
  nothing).
\<close>

theorem stop_ask_resets_record:
  "ask_results (stop_ask qid st) qid =
     Some \<lparr>status = Stopped, rephrased_question = None, intent_reasoning = None,
           sql_generation_reasoning = None, ask_type = None, retrieved_tables = None,
           response = None, invalid_sql = None, error = None, trace_id = None,
           is_followup = False, general_type = None\<rparr>"
  by (simp add: stop_ask_def AskResultResponse_def)

text \<open>
  Claim C5. For a query id whose record was never stored, and for one whose record
  was stored at reading \<open>t\<close> and is looked up when the TTL has elapsed
  (\<open>t + ttl \<le> now\<close>), \<^verbatim>\<open>get_ask_result\<close> returns a response with status
  \<^verbatim>\<open>failed\<close> and the error \<^verbatim>\<open>OTHERS\<close>, "<query id> is not found". The function is
  total: it returns this response, it does not raise.
\<close>

theorem get_ask_result_not_found:
  "(items c qid = None \<longrightarrow>
      get_ask_result (visible c now) qid =
        \<lparr>status = Failed, rephrased_question = None, intent_reasoning = None,
         sql_generation_reasoning = None, ask_type = Some TEXT_TO_SQL, retrieved_tables = None,
         response = None, invalid_sql = None,
         error = Some \<lparr>code = OTHERS, message = qid @ '' is not found''\<rparr>,
         trace_id = None, is_followup = False, general_type = None\<rparr>)
   \<and> (t + ttl c \<le> now \<longrightarrow>
      get_ask_result (visible (setitem t qid r c) now) qid =
        \<lparr>status = Failed, rephrased_question = None, intent_reasoning = None,
         sql_generation_reasoning = None, ask_type = Some TEXT_TO_SQL, retrieved_tables = None,
         response = None, invalid_sql = None,
         error = Some \<lparr>code = OTHERS, message = qid @ '' is not found''\<rparr>,
         trace_id = None, is_followup = False, general_type = None\<rparr>)"
  by (simp add: get_ask_result_def visible_def setitem_def not_found_def AskResultResponse_def)

theorem get_ask_result_not_found_witness:
  "items (TTLCache default_ttl :: string ask_result_response ttl_cache) ''q1'' = None
   \<and> 0 + ttl (TTLCache default_ttl :: string ask_result_response ttl_cache) \<le> 120
   \<and> error (get_ask_result (visible (TTLCache default_ttl) 120) ''q1'')
       = Some \<lparr>code = OTHERS, message = ''q1 is not found''\<rparr>
   \<and> status (get_ask_result
         (visible (setitem 0 ''q1'' (AskResultResponse Finished) (TTLCache default_ttl)) 120) ''q1'')
       = Failed"
  using get_ask_result_not_found
          [of "TTLCache default_ttl" "''q1''" 120 0 "AskResultResponse Finished"]
  by (simp add: TTLCache_def default_ttl_def)

section \<open>Properties of the intent post-processing\<close>

lemma reply_unusable_iff:
  "reply_unusable loads replies \<longleftrightarrow> (\<exists>ex. post_process_try loads replies schemas = Inl ex)"
  by (auto simp: reply_unusable_def post_process_try_def first_reply_def
           split: option.splits list.splits sum.splits json.splits)

text \<open>
  Claim C8. Whenever reading the reply of the intent classification fails (no reply,
  a reply that does not parse, a parsed value that is not an object with the keys
  \<^verbatim>\<open>rephrased_question\<close>, \<^verbatim>\<open>results\<close> and \<^verbatim>\<open>reasoning\<close>), \<^verbatim>\<open>post_process\<close> returns
  the default with an empty rephrased question, intent \<^verbatim>\<open>TEXT_TO_SQL\<close>, empty
  reasoning and the constructed schemas unchanged; that intent is not one of the
  general intents, so the ask flow goes on to SQL generation.
\<close>

theorem post_process_fallback:
  assumes "reply_unusable loads replies"
  shows "post_process loads replies schemas =
           \<lparr>pp_rephrased_question = JString [], pp_intent = JString ''TEXT_TO_SQL'',
            pp_reasoning = JString [], pp_db_schemas = schemas\<rparr>
         \<and> (\<forall>i. pp_intent (post_process loads replies schemas) = JString i
                \<longrightarrow> \<not> is_general (Some i))"
proof -
  from assms obtain ex where "post_process_try loads replies schemas = Inl ex"
    using reply_unusable_iff by blast
  then show ?thesis
    by (simp add: post_process_def is_general_def general_intents_def)
qed

theorem post_process_fallback_witness:
  "reply_unusable loads_rejecting (Some [''{not json''])
   \<and> pp_intent (post_process loads_rejecting (Some [''{not json'']) [''CREATE TABLE sales''])
       = JString ''TEXT_TO_SQL''
   \<and> pp_db_schemas (post_process loads_rejecting (Some [''{not json'']) [''CREATE TABLE sales''])
       = [''CREATE TABLE sales'']"
proof -
  have h: "reply_unusable loads_rejecting (Some [''{not json''])"
    by (simp add: reply_unusable_def loads_rejecting_def)
  show ?thesis
    using h post_process_fallback [OF h, of "[''CREATE TABLE sales'']"] by simp
qed

section \<open>The log of the basic operations\<close>

lemma trace_update_status:
  "trace (update_status e qid kw st) =
     trace st @ (case validate (validation_message e) kw of Inl ex \<Rightarrow> [] | Inr r \<Rightarrow> [Write (status r)])"
  by (simp add: update_status_def split: sum.splits)

lemma trace_invoke [simp]: "trace (invoke p h st) = trace st @ [Run p h]"
  by (simp add: invoke_def)

lemma trace_await [simp]: "trace (await e p i qid st) = trace st"
  by (simp add: await_def stop_ask_def)

section \<open>Properties of the SQL correction loop\<close>

lemma correction_calls_update_status [simp]:
  "correction_calls (trace (update_status e qid kw st)) = correction_calls (trace st)"
  by (simp add: trace_update_status correction_calls_def split: sum.splits)

lemma correction_calls_append [simp]:
  "correction_calls (xs @ ys) = correction_calls xs + correction_calls ys"
  by (simp add: correction_calls_def)

lemma correction_calls_single [simp]:
  "correction_calls [ev] = (if ev = Run Sql_correction None then 1 else 0)"
  by (simp add: correction_calls_def)

lemma correction_pass_calls:
  "correction_pass e qid kw n fr isq emsg st = (ex, isq', emsg', st') \<Longrightarrow>
   correction_calls (trace st') \<le> correction_calls (trace st) + 1"
  by (auto simp: correction_pass_def Let_def
           split: option.splits sum.splits if_splits entry.splits)

lemma correction_pass_continue:
  "correction_pass e qid kw n fr isq emsg st = (Continue fr', isq', emsg', st') \<Longrightarrow>
   \<not> yields_valid (sql_correction_run e n)"
  by (auto simp: correction_pass_def Let_def yields_valid_def
           split: option.splits sum.splits if_splits entry.splits)

lemma correction_loop_calls:
  "correction_calls (trace (snd (snd (snd (correction_loop e qid kw mx cur fr isq emsg st)))))
     \<le> correction_calls (trace st) + nat (mx - cur)"
proof (induction e qid kw mx cur fr isq emsg st rule: correction_loop.induct)
  case (1 e qid kw mx cur fr isq emsg st)
  show ?case
  proof (cases "cur < mx")
    case False
    then show ?thesis by (simp add: correction_loop.simps [of e qid kw mx cur])
  next
    case True
    obtain ex isq' emsg' st' where p: "correction_pass e qid kw (nat cur) fr isq emsg st = (ex, isq', emsg', st')"
      by (metis prod_cases4)
    have one: "correction_calls (trace st') \<le> correction_calls (trace st) + 1"
      using correction_pass_calls [OF p] .
    show ?thesis
    proof (cases ex)
      case (Continue fr')
      have "correction_calls (trace (snd (snd (snd (correction_loop e qid kw mx (cur + 1) fr' isq' emsg' st')))))
              \<le> correction_calls (trace st') + nat (mx - (cur + 1))"
        using "1.IH" [OF True p [symmetric, unfolded Continue] refl refl refl] by simp
      with one True p Continue show ?thesis
        by (simp add: correction_loop.simps [of e qid kw mx cur])
    next
      case (Raise x)
      with one True p show ?thesis
        by (simp add: correction_loop.simps [of e qid kw mx cur])
    next
      case (Break x)
      with one True p show ?thesis
        by (simp add: correction_loop.simps [of e qid kw mx cur])
    qed
  qed
qed

lemma correction_loop_stops:
  "0 \<le> cur \<Longrightarrow> nat cur \<le> k \<Longrightarrow> yields_valid (sql_correction_run e k) \<Longrightarrow>
   correction_calls (trace (snd (snd (snd (correction_loop e qid kw mx cur fr isq emsg st)))))
     \<le> correction_calls (trace st) + (Suc k - nat cur)"
proof (induction e qid kw mx cur fr isq emsg st rule: correction_loop.induct)
  case (1 e qid kw mx cur fr isq emsg st)
  show ?case
  proof (cases "cur < mx")
    case False
    then show ?thesis by (simp add: correction_loop.simps [of e qid kw mx cur])
  next
    case True
    obtain ex isq' emsg' st' where p: "correction_pass e qid kw (nat cur) fr isq emsg st = (ex, isq', emsg', st')"
      by (metis prod_cases4)
    have one: "correction_calls (trace st') \<le> correction_calls (trace st) + 1"
      using correction_pass_calls [OF p] .
    show ?thesis
    proof (cases ex)
      case (Continue fr')
      have "\<not> yields_valid (sql_correction_run e (nat cur))"
        using correction_pass_continue p Continue by blast
      with "1.prems" have lt: "nat cur < k" by (metis le_neq_implies_less)
      with "1.prems" have "nat (cur + 1) \<le> k" "0 \<le> cur + 1" by auto
      then have "correction_calls (trace (snd (snd (snd (correction_loop e qid kw mx (cur + 1) fr' isq' emsg' st')))))
              \<le> correction_calls (trace st') + (Suc k - nat (cur + 1))"
        using "1.IH" [OF True p [symmetric, unfolded Continue] refl refl refl] "1.prems" by simp
      with one True p Continue lt "1.prems" show ?thesis
        by (simp add: nat_add_distrib correction_loop.simps [of e qid kw mx cur])
    next
      case (Raise x)
      with one True p "1.prems" show ?thesis
        by (simp add: correction_loop.simps [of e qid kw mx cur])
    next
      case (Break x)
      with one True p "1.prems" show ?thesis
        by (simp add: correction_loop.simps [of e qid kw mx cur])
    qed
  qed
qed


lemma snd_correct_sql:
  "snd (correct_sql e qid fr tables mx tid fu rq ir st) =
   snd (snd (snd (correction_loop e qid
     ((AskResultResponse Correcting)
            \<lparr>ask_type := Some TEXT_TO_SQL, rephrased_question := rq,
             intent_reasoning := ir, retrieved_tables := tables,
             sql_generation_reasoning := None, trace_id := tid, is_followup := fu\<rparr>)
     mx 0 fr None None st)))"
  by (simp add: correct_sql_def Let_def split: prod.splits loop_exit.splits option.splits)

text \<open>
  Claim C4. The correction loop is a total function (its recursion is well founded:
  \<^verbatim>\<open>max_retries - current_retries\<close> decreases), so every invocation terminates. Run
  with \<^verbatim>\<open>max_retries = max_sql_correction_retries\<close> it calls the correction pipeline
  at most that many times, and when call number \<open>k\<close> (counted from 0) yields a valid
  generation result it makes no call after that one.
\<close>

theorem correct_sql_bounded:
  "correction_calls (trace (snd (correct_sql e qid fr tables (max_sql_correction_retries svc) tid fu rq ir st)))
     \<le> correction_calls (trace st) + nat (max_sql_correction_retries svc)
   \<and> (\<forall>k. yields_valid (sql_correction_run e k) \<longrightarrow>
          correction_calls (trace (snd (correct_sql e qid fr tables (max_sql_correction_retries svc) tid fu rq ir st)))
            \<le> correction_calls (trace st) + Suc k)"
  using correction_loop_calls [of e qid _ "max_sql_correction_retries svc" 0 fr None None st]
        correction_loop_stops [of 0 _ e qid _ "max_sql_correction_retries svc" fr None None st]
  by (simp add: snd_correct_sql)

theorem correct_sql_bounded_witness:
  "yields_valid (sql_correction_run env_second_fix 1)
   \<and> correction_calls (trace (snd (correct_sql env_second_fix ''q1''
          (Some [(''sql'', ''SELEC 1''), (''error'', ''syntax'')]) (Some [''sales''])
          (max_sql_correction_retries default_service) None False None None state0)))
       \<le> correction_calls (trace state0) + Suc 1"
proof -
  have h: "yields_valid (sql_correction_run env_second_fix 1)"
    by (simp add: yields_valid_def env_second_fix_def valid_generation_def)
  show ?thesis
    using h correct_sql_bounded [of env_second_fix "''q1''" _ _ default_service None False None None state0]
    by blast
qed

section \<open>What the steps of the flow log\<close>

text \<open>
  Each step only appends to the log, and appends only the events named in the
  hypotheses of its lemma.
\<close>

lemma since_start: "since (length (trace st)) P st"
  by (simp add: since_def)

lemma since_run_events:
  "since (length (trace st)) P st' \<Longrightarrow> ev \<in> set (run_events st st') \<Longrightarrow> P ev"
  by (simp add: since_def run_events_def)

lemma since_update_status:
  "since n P st \<Longrightarrow> (\<And>s. P (Write s)) \<Longrightarrow> since n P (update_status e qid kw st)"
  by (auto simp: since_def update_status_def split: sum.splits)

lemma since_invoke: "since n P st \<Longrightarrow> P (Run p h) \<Longrightarrow> since n P (invoke p h st)"
  by (auto simp: since_def invoke_def)

lemma since_await: "since n P st \<Longrightarrow> since n P (await e p i qid st)"
  by (simp add: since_def await_def stop_ask_def)

lemmas since_intros = since_update_status since_invoke since_await

lemma since_retrieve_sql_samples_and_instructions:
  assumes "since n P st" "P (Run Sql_pairs_retrieval None)" "P (Run Instructions_retrieval None)"
  shows "since n P (snd (retrieve_sql_samples_and_instructions e qid st))"
  using assms
  by (auto simp: retrieve_sql_samples_and_instructions_def Let_def split: sum.splits
           intro!: since_intros)

lemma since_check_historical_question:
  assumes "since n P st" "P (Run Historical_question None)"
    "P (Run Sql_pairs_retrieval None)" "P (Run Instructions_retrieval None)"
  shows "since n P (snd (check_historical_question e qid st))"
proof -
  let ?st1 = "await e Historical_question 0 qid (invoke Historical_question None st)"
  have s1: "since n P ?st1"
    using assms by (auto intro!: since_intros)
  have s2: "since n P (snd (retrieve_sql_samples_and_instructions e qid ?st1))"
    using since_retrieve_sql_samples_and_instructions [OF s1 assms(3,4)] .
  show ?thesis
    using s1 s2
    by (auto simp: check_historical_question_def Let_def split: sum.splits prod.splits)
qed

lemma since_classify_intent:
  assumes "since n P st" "P (Run Intent_classification (Some hs))"
  shows "since n P (snd (classify_intent e qid hs st))"
  using assms
  by (auto simp: classify_intent_def Let_def split: sum.splits intro!: since_intros)

lemma since_handle_general_query:
  assumes "since n P st" "\<And>s. P (Write s)"
    "P (Run Misleading_assistance (Some hs))" "P (Run Data_assistance (Some hs))"
    "P (Run User_guide_assistance None)"
  shows "since n P (snd (handle_general_query e qid intnt hs rq ir tid fu st))"
proof -
  have w: "\<And>kw st'. since n P st' \<Longrightarrow> since n P (update_status e qid kw st')"
    by (rule since_update_status) (simp_all add: assms(2))
  have i: "since n P (invoke Misleading_assistance (Some hs) st)"
    "since n P (invoke Data_assistance (Some hs) st)"
    "since n P (invoke User_guide_assistance None st)"
    using assms by (auto intro!: since_invoke)
  show ?thesis
    by (simp add: handle_general_query_def Let_def w i assms(1))
qed

lemma since_retrieve_database_schemas:
  assumes "since n P st" "\<And>s. P (Write s)" "P (Run Db_schema_retrieval (Some hs))"
  shows "since n P (snd (retrieve_database_schemas e qid hs tid fu rq ir st))"
  using assms
  by (auto simp: retrieve_database_schemas_def Let_def split: sum.splits intro!: since_intros)

lemma since_generate_sql_reasoning:
  assumes "since n P st" "\<And>s. P (Write s)"
    "P (Run Followup_sql_generation_reasoning (Some hs))" "P (Run Sql_generation_reasoning None)"
  shows "since n P (snd (generate_sql_reasoning e qid tables hs tid fu rq ir st))"
  using assms
  by (auto simp: generate_sql_reasoning_def Let_def split: sum.splits intro!: since_intros)

lemma since_generate_sql:
  assumes "since n P st" "\<And>s. P (Write s)" "P (Run Sql_functions_retrieval None)"
    "P (Run Followup_sql_generation (Some hs))" "P (Run Sql_generation None)"
  shows "since n P (snd (generate_sql svc e qid tables hs sgr tid fu rq ir st))"
  using assms
  by (auto simp: generate_sql_def Let_def split: sum.splits intro!: since_intros)

lemma since_correction_pass:
  assumes "since n P st" "\<And>s. P (Write s)" "P (Run Sql_correction None)"
  shows "since n P (snd (snd (snd (correction_pass e qid kw k fr isq emsg st))))"
  using assms
  by (auto simp: correction_pass_def Let_def
           split: sum.splits option.splits entry.splits intro!: since_intros)

lemma since_correction_loop:
  assumes "\<And>s. P (Write s)" "P (Run Sql_correction None)"
  shows "since n P st \<Longrightarrow>
         since n P (snd (snd (snd (correction_loop e qid kw mx cur fr isq emsg st))))"
proof (induction e qid kw mx cur fr isq emsg st rule: correction_loop.induct)
  case (1 e qid kw mx cur fr isq emsg st)
  show ?case
  proof (cases "cur < mx")
    case False
    with "1.prems" show ?thesis by (simp add: correction_loop.simps [of e qid kw mx cur])
  next
    case True
    obtain ex isq' emsg' st' where
      p: "correction_pass e qid kw (nat cur) fr isq emsg st = (ex, isq', emsg', st')"
      by (metis prod_cases4)
    have s': "since n P st'"
      using since_correction_pass [OF "1.prems" assms, of e qid kw "nat cur" fr isq emsg] p by simp
    show ?thesis
    proof (cases ex)
      case (Continue fr')
      have "since n P (snd (snd (snd (correction_loop e qid kw mx (cur + 1) fr' isq' emsg' st'))))"
        using "1.IH" [OF True p [symmetric, unfolded Continue] refl refl refl s'] .
      with True p Continue show ?thesis
        by (simp add: correction_loop.simps [of e qid kw mx cur])
    next
      case (Raise x)
      with s' True p show ?thesis by (simp add: correction_loop.simps [of e qid kw mx cur])
    next
      case (Break x)
      with s' True p show ?thesis by (simp add: correction_loop.simps [of e qid kw mx cur])
    qed
  qed
qed

lemma since_correct_sql:
  assumes "since n P st" "\<And>s. P (Write s)" "P (Run Sql_correction None)"
  shows "since n P (snd (correct_sql e qid fr tables mx tid fu rq ir st))"
  using since_correction_loop [OF assms(2,3) assms(1)]
  by (simp add: snd_correct_sql)

lemma since_format_final_response:
  assumes "since n P st" "\<And>s. P (Write s)"
  shows "since n P (snd (format_final_response e qid api emsg isq rq ir tables sgr tid fu rf st))"
  using assms
  by (auto simp: format_final_response_def intro!: since_intros)

lemma since_format_cached_response:
  assumes "since n P st" "\<And>s. P (Write s)"
  shows "since n P (snd (format_cached_response e qid api rq ir tables sgr tid fu rf st))"
  using assms
  by (auto simp: format_cached_response_def intro!: since_intros)

lemma since_handle_cache_hit:
  assumes "since n P st" "\<And>s. P (Write s)"
    "P (Run Intent_classification (Some (ctx_histories context)))"
    "P (Run Misleading_assistance (Some (ctx_histories context)))"
    "P (Run Data_assistance (Some (ctx_histories context)))"
    "P (Run User_guide_assistance None)"
  shows "since n P (snd (handle_cache_hit svc e req context api sgr st))"
proof (cases "allow_intent_classification svc")
  case False
  then show ?thesis
    using since_format_cached_response [OF assms(1,2)]
    by (simp add: handle_cache_hit_def Let_def split_beta)
next
  case True
  let ?c = "classify_intent e (ctx_query_id context) (ctx_histories context) st"
  have s1: "since n P (snd ?c)"
    using since_classify_intent [OF assms(1,3)] .
  show ?thesis
    using True
      since_handle_general_query [OF s1 assms(2,4,5,6)]
      since_format_cached_response [OF s1 assms(2)]
    by (simp add: handle_cache_hit_def Let_def split_beta)
qed

lemma since_generate_and_format:
  assumes "since n P st" "\<And>s. P (Write s)" "P (Run Sql_functions_retrieval None)"
    "P (Run Followup_sql_generation (Some (ctx_histories context)))"
    "P (Run Sql_generation None)" "P (Run Sql_correction None)"
  shows "since n P (snd (generate_and_format svc e req context st))"
proof (cases "is_stopped (ctx_query_id context) (ask_results st)")
  case True
  then show ?thesis
    using since_format_final_response [OF assms(1,2)]
    by (simp add: generate_and_format_def format_response_def Let_def split_beta)
next
  case False
  obtain g st1 where
    g: "generate_sql svc e (ctx_query_id context) (table_names context) (ctx_histories context)
          (ctx_sql_generation_reasoning context) (ctx_trace_id context)
          (ctx_histories context \<noteq> []) (ctx_rephrased_question context)
          (ctx_intent_reasoning context) st = (g, st1)"
    by (metis surj_pair)
  have s1: "since n P st1"
    using since_generate_sql [OF assms(1,2,3,4,5)] g by (metis snd_conv)
  have s2: "\<And>fr mx tid fu rq ir. since n P (snd (correct_sql e (ctx_query_id context) fr
              (table_names context) mx tid fu rq ir st1))"
    using since_correct_sql [OF s1 assms(2,6)] .
  have f1: "\<And>api emsg isq rq ir tables sgr tid fu rf.
              since n P (snd (format_final_response e (ctx_query_id context) api emsg isq rq ir
                tables sgr tid fu rf st1))"
    using since_format_final_response [OF s1 assms(2)] .
  have f2: "\<And>st' api emsg isq rq ir tables sgr tid fu rf. since n P st' \<Longrightarrow>
              since n P (snd (format_final_response e (ctx_query_id context) api emsg isq rq ir
                tables sgr tid fu rf st'))"
    by (rule since_format_final_response) (simp_all add: assms(2))
  show ?thesis
    using False g s1 s2 f1 f2
    by (auto simp: generate_and_format_def format_response_def Let_def split_beta
             split: option.splits entry.splits)
qed


lemma since_retrieve_and_generate:
  assumes s0: "since n P st" and w: "\<And>s. P (Write s)" and r0: "\<And>p. P (Run p None)"
    and rh: "\<And>p. P (Run p (Some (ctx_histories context)))"
    and q: "ctx_query_id context = query_id req"
  shows "since n P (snd (retrieve_and_generate svc e req context rq ir st))"
proof -
  let ?qid = "query_id req" and ?hs = "ctx_histories context"
  have s4: "\<And>tid fu. since n P (snd (retrieve_database_schemas e ?qid ?hs tid fu rq ir st))"
    using since_retrieve_database_schemas [OF s0 w rh] .
  have s5: "\<And>st' tables tid fu. since n P st' \<Longrightarrow>
              since n P (snd (generate_sql_reasoning e ?qid tables ?hs tid fu rq ir st'))"
    by (rule since_generate_sql_reasoning) (simp_all add: w rh r0)
  have s6: "\<And>c st'. since n P st' \<Longrightarrow> ctx_histories c = ?hs \<Longrightarrow>
              since n P (snd (generate_and_format svc e req c st'))"
    by (rule since_generate_and_format) (simp_all add: w rh r0)
  show ?thesis
    using s4 s5 s6
    by (auto simp: retrieve_and_generate_def Let_def split_beta split: sum.splits)
qed

lemma since_ask_body:
  assumes s0: "since n P st" and w: "\<And>s. P (Write s)" and r0: "\<And>p. P (Run p None)"
    and rh: "\<And>p. P (Run p (Some (ctx_histories context)))"
    and q: "ctx_query_id context = query_id req"
  shows "since n P (snd (ask_body svc e req context st))"
proof -
  let ?qid = "query_id req" and ?hs = "ctx_histories context"
  have s1: "\<And>kw. since n P (update_status e ?qid kw st)"
    using s0 w by (rule since_update_status)
  have chq: "\<And>s. since n P s \<Longrightarrow> since n P (snd (check_historical_question e ?qid s))"
    by (rule since_check_historical_question) (simp_all add: r0)
  have hit: "\<And>api sgr s. since n P s \<Longrightarrow>
               since n P (snd (handle_cache_hit svc e req context api sgr s))"
    by (rule since_handle_cache_hit) (simp_all add: w rh r0)
  have ci: "\<And>s. since n P s \<Longrightarrow> since n P (snd (classify_intent e ?qid ?hs s))"
    by (rule since_classify_intent) (simp_all add: rh)
  have gen: "\<And>intnt rq ir tid fu s. since n P s \<Longrightarrow>
               since n P (snd (handle_general_query e ?qid intnt ?hs rq ir tid fu s))"
    by (rule since_handle_general_query) (simp_all add: w rh r0)
  have rg: "\<And>rq ir s. since n P s \<Longrightarrow>
              since n P (snd (retrieve_and_generate svc e req context rq ir s))"
    by (rule since_retrieve_and_generate) (simp_all add: w rh r0 q)
  show ?thesis
    by (simp add: ask_body_def Let_def split_beta s0 s1 chq hit ci gen rg split: option.splits)
qed

lemma since_ask:
  assumes s0: "since n P st" and w: "\<And>s. P (Write s)" and r0: "\<And>p. P (Run p None)"
    and rh: "\<And>p hs. histories req = Some hs \<Longrightarrow>
               P (Run p (Some (rev (slice_to hs (max_histories svc)))))"
  shows "since n P (snd (ask svc e req tid st))"
proof (cases "histories req")
  case None
  with s0 show ?thesis by (simp add: ask_def AskContext_def)
next
  case (Some hs)
  define ctx where "ctx =
    \<lparr>ctx_query_id = query_id req, user_query = query req,
     ctx_histories = rev (slice_to hs (max_histories svc)),
     ctx_trace_id = tid, ctx_rephrased_question = None,
     ctx_intent_reasoning = None, ctx_sql_generation_reasoning = None,
     table_names = None, table_ddls = None, sql_samples = None,
     instructions = None\<rparr>"
  have c: "AskContext svc req tid = Inr ctx"
    by (simp add: AskContext_def Some ctx_def)
  have b: "since n P (snd (ask_body svc e req ctx st))"
    by (rule since_ask_body [OF s0 w r0]) (simp_all add: ctx_def rh [OF Some])
  show ?thesis
    using b w c
    by (auto simp: ask_def split_beta split: sum.splits intro!: since_intros)
qed

section \<open>Properties of the ask flow\<close>

text \<open>
  Claim C9. For every ask request (with a histories list \<open>hs\<close>, and a service whose
  \<^verbatim>\<open>max_histories\<close> is not negative), every pipeline call of the run that is given a
  \<^verbatim>\<open>histories\<close> argument is given the first \<open>min (length hs) max_histories\<close>
  entries of \<open>hs\<close> in reversed order; later entries are dropped.
\<close>

theorem ask_histories:
  assumes "0 \<le> max_histories svc" and "histories req = Some hs"
    and "Run p (Some h) \<in> set (run_events st (snd (ask svc e req tid st)))"
  shows "h = rev (take (min (length hs) (nat (max_histories svc))) hs)"
proof -
  let ?H = "rev (take (min (length hs) (nat (max_histories svc))) hs)"
  let ?P = "\<lambda>ev. \<forall>p h. ev = Run p (Some h) \<longrightarrow> h = ?H"
  have sl: "rev (slice_to hs (max_histories svc)) = ?H"
    using assms(1) by (simp add: slice_to_def min_def)
  have "since (length (trace st)) ?P (snd (ask svc e req tid st))"
    by (rule since_ask [OF since_start]) (use assms(2) sl in auto)
  from since_run_events [OF this assms(3)] show ?thesis by simp
qed

theorem ask_histories_witness:
  "0 \<le> max_histories service_two_histories
   \<and> histories request_followup = Some [history1, history2, history3]
   \<and> Run Db_schema_retrieval (Some [history2, history1])
        \<in> set (run_events state0 (snd (ask service_two_histories env0 request_followup None state0)))
   \<and> [history2, history1]
        = rev (take (min (length [history1, history2, history3])
                      (nat (max_histories service_two_histories)))
                 [history1, history2, history3])"
proof -
  have a: "0 \<le> max_histories service_two_histories"
    by (simp add: service_two_histories_def default_service_def)
  have b: "histories request_followup = Some [history1, history2, history3]"
    by (simp add: request_followup_def request0_def)
  have c: "Run Db_schema_retrieval (Some [history2, history1])
        \<in> set (run_events state0 (snd (ask service_two_histories env0 request_followup None state0)))"
    by code_simp
  show ?thesis
    using a b c ask_histories [OF a b c] by simp
qed

lemma invoked_append [simp]: "invoked (xs @ ys) = invoked xs @ invoked ys"
  by (simp add: invoked_def)

lemma invoked_simps [simp]:
  "invoked [] = []" "invoked (Run p h # evs) = p # invoked evs" "invoked (Write s # evs) = invoked evs"
  by (simp_all add: invoked_def)

lemma since_invoked:
  "since n (\<lambda>ev. \<forall>p h. ev = Run p h \<longrightarrow> Q p) st \<Longrightarrow> \<forall>p\<in>set (invoked (drop n (trace st))). Q p"
  by (auto simp: since_def invoked_def split: event.splits)

lemma handle_general_query_finished:
  assumes "i \<in> set general_intents"
  shows "fst (handle_general_query e qid (Some i) hs rq ir tid fu st) =
           Some (general_metadata (if i = ''MISLEADING_QUERY'' then ''MISLEADING_QUERY'' else ''GENERAL''))"
    and "trace (snd (handle_general_query e qid (Some i) hs rq ir tid fu st)) =
           trace st @ [if i = ''MISLEADING_QUERY'' then Run Misleading_assistance (Some hs)
                       else if i = ''GENERAL'' then Run Data_assistance (Some hs)
                       else Run User_guide_assistance None,
                       Write Finished]"
    and "map_option (\<lambda>r. (status r, ask_type r))
           (ask_results (snd (handle_general_query e qid (Some i) hs rq ir tid fu st)) qid)
         = Some (Finished, Some GENERAL)"
  using assms
  by (auto simp: handle_general_query_def general_intents_def Let_def update_status_def
                 validate_def AskResultResponse_def invoke_def)


lemma classify_intent_result:
  assumes "intent_classification_run e = Inr out"
  shows "fst (classify_intent e qid hs st) =
           (intent out, intent_rephrased_question out, reasoning out, db_schemas out)"
    and "trace (snd (classify_intent e qid hs st)) = trace st @ [Run Intent_classification (Some hs)]"
  using assms by (simp_all add: classify_intent_def Let_def)

lemma run_events_append:
  "n \<le> length (trace st') \<Longrightarrow> drop n (trace st' @ evs) = drop n (trace st') @ evs"
  by simp

text \<open>
  Claim C2. For every ask request whose intent classification runs and yields
  \<^verbatim>\<open>GENERAL\<close>, \<^verbatim>\<open>MISLEADING_QUERY\<close> or \<^verbatim>\<open>USER_GUIDE\<close>, the run returns the general
  result, starts exactly one assistance pipeline, the matching one
  (\<^verbatim>\<open>data_assistance\<close> for \<^verbatim>\<open>GENERAL\<close>, \<^verbatim>\<open>misleading_assistance\<close> for
  \<^verbatim>\<open>MISLEADING_QUERY\<close>, \<^verbatim>\<open>user_guide_assistance\<close> for \<^verbatim>\<open>USER_GUIDE\<close>), leaves a
  finished record of type \<^verbatim>\<open>GENERAL\<close>, and calls neither \<^verbatim>\<open>sql_generation\<close> nor
  \<^verbatim>\<open>followup_sql_generation\<close>.
\<close>

theorem general_intent_dispatch:
  assumes run: "ask svc e req tid st = (res, st')"
    and cls: "Intent_classification \<in> set (invoked (run_events st st'))"
    and out: "intent_classification_run e = Inr out" "intent out = Some i"
             "i \<in> set general_intents"
  shows "res = Inr (Some (general_metadata
                 (if i = ''MISLEADING_QUERY'' then ''MISLEADING_QUERY'' else ''GENERAL'')))
    \<and> filter is_assistance (invoked (run_events st st')) =
          [if i = ''GENERAL'' then Data_assistance
           else if i = ''MISLEADING_QUERY'' then Misleading_assistance
           else User_guide_assistance]
    \<and> map_option (\<lambda>r. (status r, ask_type r)) (ask_results st' (query_id req))
          = Some (Finished, Some GENERAL)
    \<and> Sql_generation \<notin> set (invoked (run_events st st'))
    \<and> Followup_sql_generation \<notin> set (invoked (run_events st st'))"
proof (cases "histories req")
  case None
  with run have "st' = st" by (auto simp: ask_def AskContext_def)
  with cls show ?thesis by (simp add: run_events_def)
next
  case (Some hs)
  let ?n = "length (trace st)"
  let ?qid = "query_id req" and ?H = "rev (slice_to hs (max_histories svc))"
  define ctx where "ctx =
    \<lparr>ctx_query_id = query_id req, user_query = query req,
     ctx_histories = ?H, ctx_trace_id = tid, ctx_rephrased_question = None,
     ctx_intent_reasoning = None, ctx_sql_generation_reasoning = None,
     table_names = None, table_ddls = None, sql_samples = None,
     instructions = None\<rparr>"
  have actx: "AskContext svc req tid = Inr ctx"
    by (simp add: AskContext_def Some ctx_def)
  let ?P = "\<lambda>ev. \<forall>p h. ev = Run p h \<longrightarrow>
              p \<in> {Historical_question, Sql_pairs_retrieval, Instructions_retrieval}"
  let ?st1 = "if \<not> is_stopped ?qid (ask_results st) then
                update_status e ?qid
                  ((AskResultResponse Understanding)\<lparr>trace_id := tid, is_followup := (?H \<noteq> [])\<rparr>) st
              else st"
  have s1: "since ?n ?P ?st1"
    using since_start [of st ?P] by (auto intro!: since_intros)
  let ?c = "check_historical_question e ?qid ?st1"
  have s2: "since ?n ?P (snd ?c)"
    by (rule since_check_historical_question [OF s1]) simp_all
  have n2: "?n \<le> length (trace (snd ?c))"
    using s2 by (simp add: since_def)
  have pre: "\<forall>p\<in>set (invoked (drop ?n (trace (snd ?c)))).
               p \<in> {Historical_question, Sql_pairs_retrieval, Instructions_retrieval}"
    using since_invoked [OF s2] .
  let ?ci = "classify_intent e ?qid ?H (snd ?c)"
  let ?g = "handle_general_query e ?qid (Some i) ?H (intent_rephrased_question out)
              (reasoning out) tid (?H \<noteq> []) (snd ?ci)"
  have gen: "is_general (Some i)"
    using out(3) by (simp add: is_general_def)
  show ?thesis
  proof (cases "fst (fst ?c) \<noteq> None \<and> \<not> allow_intent_classification svc")
    case True
    then obtain api where api: "fst (fst ?c) = Some api" by auto
    let ?f = "format_cached_response e ?qid api None None [] (fst (snd (fst ?c))) tid
                (?H \<noteq> []) (request_from req) (snd ?c)"
    have eq: "st' = snd ?f"
      using run True api actx
      by (simp add: ask_def ask_body_def handle_cache_hit_def ctx_def Let_def split_beta)
    have sf: "since ?n ?P (snd ?f)"
      by (rule since_format_cached_response [OF s2]) simp
    have "\<forall>p\<in>set (invoked (drop ?n (trace (snd ?f)))).
               p \<in> {Historical_question, Sql_pairs_retrieval, Instructions_retrieval}"
      using since_invoked [OF sf] .
    then have "\<forall>p\<in>set (invoked (run_events st st')).
               p \<in> {Historical_question, Sql_pairs_retrieval, Instructions_retrieval}"
      unfolding eq run_events_def .
    with cls show ?thesis by auto
  next
    case False
    have r: "res = Inr (fst ?g)" and s: "st' = snd ?g"
      using run False actx gen classify_intent_result(1) [OF out(1), of ?qid ?H "snd ?c"] out(2)
      by (auto simp: ask_def ask_body_def handle_cache_hit_def ctx_def Let_def split_beta
               split: option.splits)
    have tr: "trace st' = trace (snd ?c) @ [Run Intent_classification (Some ?H),
                if i = ''MISLEADING_QUERY'' then Run Misleading_assistance (Some ?H)
                else if i = ''GENERAL'' then Run Data_assistance (Some ?H)
                else Run User_guide_assistance None,
                Write Finished]"
      using s handle_general_query_finished(2) [OF out(3)]
            classify_intent_result(2) [OF out(1)] by simp
    have ev: "invoked (run_events st st') = invoked (drop ?n (trace (snd ?c))) @
                [Intent_classification,
                 if i = ''MISLEADING_QUERY'' then Misleading_assistance
                 else if i = ''GENERAL'' then Data_assistance else User_guide_assistance]"
      using tr n2 by (simp add: run_events_def)
    have f0: "filter is_assistance (invoked (drop ?n (trace (snd ?c)))) = []"
      using pre by (auto simp: filter_empty_conv is_assistance_def)
    have "filter is_assistance (invoked (run_events st st')) =
          [if i = ''GENERAL'' then Data_assistance
           else if i = ''MISLEADING_QUERY'' then Misleading_assistance
           else User_guide_assistance]"
      using f0 out(3) by (simp add: ev is_assistance_def general_intents_def)
    moreover have "Sql_generation \<notin> set (invoked (run_events st st'))"
      "Followup_sql_generation \<notin> set (invoked (run_events st st'))"
      using pre by (auto simp: ev)
    ultimately show ?thesis
      using r s handle_general_query_finished(1,3) [OF out(3)] by simp
  qed
qed


theorem general_intent_dispatch_witness:
  "ask default_service env_general request0 None state0
     = (fst (ask default_service env_general request0 None state0),
        snd (ask default_service env_general request0 None state0))
   \<and> Intent_classification
        \<in> set (invoked (run_events state0 (snd (ask default_service env_general request0 None state0))))
   \<and> intent_classification_run env_general =
        Inr \<lparr>intent = Some ''GENERAL'', intent_rephrased_question = Some ''what can you do'',
             reasoning = Some ''asks about the data set'', db_schemas = Some []\<rparr>
   \<and> ''GENERAL'' \<in> set general_intents
   \<and> filter is_assistance
        (invoked (run_events state0 (snd (ask default_service env_general request0 None state0))))
       = [Data_assistance]
   \<and> Sql_generation
        \<notin> set (invoked (run_events state0 (snd (ask default_service env_general request0 None state0))))"
proof -
  have a: "ask default_service env_general request0 None state0
     = (fst (ask default_service env_general request0 None state0),
        snd (ask default_service env_general request0 None state0))"
    by simp
  have b: "Intent_classification
        \<in> set (invoked (run_events state0 (snd (ask default_service env_general request0 None state0))))"
    by code_simp
  have c: "intent_classification_run env_general =
        Inr \<lparr>intent = Some ''GENERAL'', intent_rephrased_question = Some ''what can you do'',
             reasoning = Some ''asks about the data set'', db_schemas = Some []\<rparr>"
    by (simp add: env_general_def)
  have d: "''GENERAL'' \<in> set general_intents"
    by (simp add: general_intents_def)
  show ?thesis
    using a b c d general_intent_dispatch [OF a b c _ d] by simp
qed

subsection \<open>Cache hits\<close>

lemma check_historical_question_hit:
  assumes "historical_question_run e = Inr (d # ds)" "statement d = Some s"
  shows "fst (check_historical_question e qid st) =
           (Some [\<lparr>sql = s, result_type = (if truthy_str (document_viewId d) then View else Llm),
                   viewId = document_viewId d\<rparr>],
            Some (Reasoning_str []), [], [])"
  using assms by (simp add: check_historical_question_def cached_ask_result_def Let_def)

lemma fst_format_cached_response:
  "fst (format_cached_response e qid api rq ir tables sgr tid fu rf st) =
     \<lparr>ask_result = Some api, metadata = text_to_sql_metadata [] [] rf\<rparr>"
  by (simp add: format_cached_response_def)

text \<open>
  Claim C3, as the code has it. For every ask request for which the
  \<^verbatim>\<open>historical_question\<close> pipeline returns a non-empty document list whose first
  document carries a statement, the SQL generation pipelines are never called; and
  unless intent classification is enabled and classifies the question as
  \<^verbatim>\<open>GENERAL\<close>, \<^verbatim>\<open>MISLEADING_QUERY\<close> or \<^verbatim>\<open>USER_GUIDE\<close>, the run returns exactly the
  first document as an \<^verbatim>\<open>AskResult\<close>, of type \<^verbatim>\<open>view\<close> when its \<^verbatim>\<open>viewId\<close> is a
  non-empty string and \<^verbatim>\<open>llm\<close> otherwise.
\<close>

theorem cache_hit_returns_top1:
  assumes run: "ask svc e req tid st = (res, st')"
    and h: "histories req = Some hs"
    and docs: "historical_question_run e = Inr (d # ds)" "statement d = Some s"
  shows "Sql_generation \<notin> set (invoked (run_events st st'))
    \<and> Followup_sql_generation \<notin> set (invoked (run_events st st'))
    \<and> (\<not> (allow_intent_classification svc
            \<and> (\<exists>out. intent_classification_run e = Inr out \<and> is_general (intent out))) \<longrightarrow>
         res = Inr (Some \<lparr>ask_result =
                            Some [\<lparr>sql = s,
                                   result_type = (if truthy_str (document_viewId d) then View else Llm),
                                   viewId = document_viewId d\<rparr>],
                          metadata = text_to_sql_metadata [] [] (request_from req)\<rparr>))"
proof -
  let ?n = "length (trace st)"
  let ?qid = "query_id req" and ?H = "rev (slice_to hs (max_histories svc))"
  define ctx where "ctx =
    \<lparr>ctx_query_id = query_id req, user_query = query req,
     ctx_histories = ?H, ctx_trace_id = tid, ctx_rephrased_question = None,
     ctx_intent_reasoning = None, ctx_sql_generation_reasoning = None,
     table_names = None, table_ddls = None, sql_samples = None,
     instructions = None\<rparr>"
  have actx: "AskContext svc req tid = Inr ctx"
    by (simp add: AskContext_def h ctx_def)
  let ?P = "\<lambda>ev. \<forall>p h. ev = Run p h \<longrightarrow> p \<noteq> Sql_generation \<and> p \<noteq> Followup_sql_generation"
  let ?st1 = "if \<not> is_stopped ?qid (ask_results st) then
                update_status e ?qid
                  ((AskResultResponse Understanding)\<lparr>trace_id := tid, is_followup := (?H \<noteq> [])\<rparr>) st
              else st"
  have s1: "since ?n ?P ?st1"
    using since_start [of st ?P] by (auto intro!: since_intros)
  let ?c = "check_historical_question e ?qid ?st1"
  let ?api = "[\<lparr>sql = s, result_type = (if truthy_str (document_viewId d) then View else Llm),
                viewId = document_viewId d\<rparr>]"
  have s2: "since ?n ?P (snd ?c)"
    by (rule since_check_historical_question [OF s1]) simp_all
  have hit: "fst ?c = (Some ?api, Some (Reasoning_str []), [], [])"
    using check_historical_question_hit [OF docs] .
  let ?h = "handle_cache_hit svc e req ctx ?api (Some (Reasoning_str [])) (snd ?c)"
  have cf: "ctx_trace_id ctx = tid" "ctx_histories ctx = ?H"
    by (simp_all add: ctx_def)
  have "res = Inr (fst ?h) \<and> st' = snd ?h"
    using run actx
    by (simp add: ask_def ask_body_def Let_def split_beta cf
                  check_historical_question_hit [OF docs] prod_eq_iff)
  then have r: "res = Inr (fst ?h)" and s: "st' = snd ?h"
    by simp_all
  have sh: "since ?n ?P (snd ?h)"
    by (rule since_handle_cache_hit [OF s2]) simp_all
  have nogen: "\<forall>p\<in>set (invoked (drop ?n (trace (snd ?h)))).
                 p \<noteq> Sql_generation \<and> p \<noteq> Followup_sql_generation"
    using since_invoked [OF sh] .
  have part1: "Sql_generation \<notin> set (invoked (run_events st st'))
      \<and> Followup_sql_generation \<notin> set (invoked (run_events st st'))"
    using nogen unfolding s run_events_def by blast
  have part2: "res = Inr (Some \<lparr>ask_result = Some ?api,
                                metadata = text_to_sql_metadata [] [] (request_from req)\<rparr>)"
    if nc: "\<not> (allow_intent_classification svc
            \<and> (\<exists>out. intent_classification_run e = Inr out \<and> is_general (intent out)))"
  proof (cases "allow_intent_classification svc")
    case False
    then show ?thesis
      using r by (simp add: handle_cache_hit_def Let_def split_beta fst_format_cached_response)
  next
    case True
    have "\<not> is_general (fst (fst (classify_intent e (ctx_query_id ctx) (ctx_histories ctx) (snd ?c))))"
      using nc True
      by (cases "intent_classification_run e")
         (auto simp: classify_intent_def Let_def is_general_def)
    with True show ?thesis
      using r by (simp add: handle_cache_hit_def Let_def split_beta fst_format_cached_response)
  qed
  show ?thesis
    using part1 part2 by blast
qed

theorem cache_hit_returns_top1_witness:
  "ask default_service env_cached request0 None state0
     = (fst (ask default_service env_cached request0 None state0),
        snd (ask default_service env_cached request0 None state0))
   \<and> histories request0 = Some []
   \<and> historical_question_run env_cached = Inr (cached_document # [other_document])
   \<and> statement cached_document = Some ''SELECT * FROM orders''
   \<and> \<not> (allow_intent_classification default_service
         \<and> (\<exists>out. intent_classification_run env_cached = Inr out \<and> is_general (intent out)))
   \<and> fst (ask default_service env_cached request0 None state0)
       = Inr (Some \<lparr>ask_result =
                       Some [\<lparr>sql = ''SELECT * FROM orders'', result_type = View,
                              viewId = Some ''view-7''\<rparr>],
                     metadata = text_to_sql_metadata [] [] ''api''\<rparr>)"
proof -
  have a: "ask default_service env_cached request0 None state0
     = (fst (ask default_service env_cached request0 None state0),
        snd (ask default_service env_cached request0 None state0))"
    by simp
  have b: "histories request0 = Some []"
    by (simp add: request0_def)
  have c: "historical_question_run env_cached = Inr (cached_document # [other_document])"
    by (simp add: env_cached_def)
  have d: "statement cached_document = Some ''SELECT * FROM orders''"
    by (simp add: cached_document_def)
  have e: "\<not> (allow_intent_classification default_service
         \<and> (\<exists>out. intent_classification_run env_cached = Inr out \<and> is_general (intent out)))"
    by (auto simp: env_cached_def env0_def is_general_def general_intents_def)
  have f: "fst (ask default_service env_cached request0 None state0)
       = Inr (Some \<lparr>ask_result =
                       Some [\<lparr>sql = ''SELECT * FROM orders'',
                              result_type = (if truthy_str (document_viewId cached_document)
                                             then View else Llm),
                              viewId = document_viewId cached_document\<rparr>],
                     metadata = text_to_sql_metadata [] [] (request_from request0)\<rparr>)"
    using cache_hit_returns_top1 [OF a b c d] e by blast
  have g: "fst (ask default_service env_cached request0 None state0)
       = Inr (Some \<lparr>ask_result =
                       Some [\<lparr>sql = ''SELECT * FROM orders'', result_type = View,
                              viewId = Some ''view-7''\<rparr>],
                     metadata = text_to_sql_metadata [] [] ''api''\<rparr>)"
    unfolding f by (simp add: cached_document_def truthy_str_def request0_def)
  show ?thesis
    using a b c d e g by blast
qed

text \<open>
  Claim C3 as stated fails: with a cached document and a question classified as
  \<^verbatim>\<open>GENERAL\<close> by the (enabled) intent classification, the run returns the general
  result with an empty \<^verbatim>\<open>ask_result\<close>, not the cached document.
\<close>

theorem cache_hit_general_counterexample:
  "historical_question_run env_cached_general = Inr [cached_document]
   \<and> fst (ask default_service env_cached_general request0 None state0)
       = Inr (Some \<lparr>ask_result = None,
                     metadata = \<lparr>metadata_type = ''GENERAL'', error_type = None,
                                 error_message = None, metadata_request_from = None\<rparr>\<rparr>)"
  by code_simp

subsection \<open>Writes that are not guarded\<close>

text \<open>
  Claim C1 does not hold of the code. A stop request served while the cache lookup
  is awaited records \<^verbatim>\<open>stopped\<close>; the run goes on, \<^verbatim>\<open>_retrieve_database_schemas\<close>
  stores \<^verbatim>\<open>searching\<close> over it without looking, the later stages follow, and the
  record ends as \<^verbatim>\<open>finished\<close>.
\<close>

theorem stopped_record_overwritten:
  "is_stopped ''q1''
     (ask_results (snd (check_historical_question env_stop_early ''q1'' state0)))
   \<and> written (trace (snd (ask default_service env_stop_early request0 None state0)))
       = [Understanding, Searching, Planning, Planning, Generating, Finished]
   \<and> map_option status
        (ask_results (snd (ask default_service env_stop_early request0 None state0)) ''q1'')
       = Some Finished"
  by code_simp

text \<open>
  Claim C6 does not hold of the code for a request whose \<^verbatim>\<open>histories\<close> is
  \<^verbatim>\<open>None\<close>: the context is built before the \<^verbatim>\<open>try\<close>, the slice raises
  \<^verbatim>\<open>TypeError\<close>, and \<^verbatim>\<open>ask\<close> propagates it without writing a record.
\<close>

theorem ask_raises_without_histories:
  "ask svc e (req\<lparr>histories := None\<rparr>) tid st = (Inl (TypeError not_subscriptable), st)"
  by (simp add: ask_def AskContext_def)

text \<open>
  Once the context is built, an exception that leaves the body of the \<^verbatim>\<open>try\<close> is
  caught: the result carries \<^verbatim>\<open>OTHERS\<close> and the message, and so does the record.
\<close>

lemma ask_catches_body_exception:
  assumes "AskContext svc req tid = Inr ctx" "ask_body svc e req ctx st = (Inl ex, st1)"
  shows "fst (ask svc e req tid st) =
           Inr (Some \<lparr>ask_result = None,
                       metadata = text_to_sql_metadata ''OTHERS'' (str_exc ex) (request_from req)\<rparr>)"
    and "ask_results (snd (ask svc e req tid st)) (query_id req) =
           Some ((AskResultResponse Failed)
                   \<lparr>trace_id := tid, is_followup := (ctx_histories ctx \<noteq> []),
                    ask_type := Some TEXT_TO_SQL,
                    error := Some \<lparr>code = OTHERS, message = str_exc ex\<rparr>\<rparr>)"
  using assms
  by (simp_all add: ask_def update_status_def validate_def AskResultResponse_def)

text \<open>
  Claim C7 does not hold of the code when the schema retrieval pipeline raises:
  \<^verbatim>\<open>_retrieve_database_schemas\<close> turns the exception into \<^verbatim>\<open>ValueError\<close> without
  storing a failed record, \<^verbatim>\<open>ask\<close> returns the \<^verbatim>\<open>NO_RELEVANT_DATA\<close> result, and the
  last status stored in the run is \<^verbatim>\<open>searching\<close>.
\<close>

theorem schema_error_leaves_searching:
  "fst (ask default_service env_schema_error request0 None state0)
     = Inr (Some \<lparr>ask_result = None,
                   metadata = \<lparr>metadata_type = ''TEXT_TO_SQL'',
                               error_type = Some ''NO_RELEVANT_DATA'', error_message = Some [],
                               metadata_request_from = Some ''api''\<rparr>\<rparr>)
   \<and> written (trace (snd (ask default_service env_schema_error request0 None state0)))
       = [Understanding, Searching]
   \<and> map_option status
        (ask_results (snd (ask default_service env_schema_error request0 None state0)) ''q1'')
       = Some Searching"
  by code_simp

end
